theory Spec2Isabelle
  imports Complex_Main "HOL-Library.Sublist"
begin

text \<open>
  TrendWise turns trending topics into articles. \<open>TrendService\<close> asks its sources for
  candidates, removes near duplicates and ranks them; \<open>OpenAIService\<close> has a generative
  backend write an article and its SEO metadata for a candidate and parses the replies;
  \<open>ArticleService\<close> and the route \<open>POST /generate-articles\<close> drive a batch and store
  its articles. The definitions below follow \<open>trendService.js\<close>, \<open>openaiService.js\<close>,
  \<open>articleService.js\<close>, \<open>routes/trends.js\<close> and \<open>models/Article.js\<close>; the sources,
  the backend, the clock and the libraries are parameters.
\<close>

section \<open>Strings\<close>

text \<open>
  JavaScript strings are modelled as \<^typ>\<open>string\<close>, one \<^typ>\<open>char\<close> per UTF-16 code unit,
  for the ASCII range: \<open>toLowerCase\<close> maps \<open>A\<close>..\<open>Z\<close> to \<open>a\<close>..\<open>z\<close> and leaves
  every other character alone, and the white space removed by \<open>trim\<close> and matched by
  \<open>\s\<close> is tab, line feed, vertical tab, form feed, carriage return and space.
\<close>

definition toLowerChar :: "char \<Rightarrow> char" where
  "toLowerChar c =
     (let n = (of_char c :: nat) in if 65 \<le> n \<and> n \<le> 90 then char_of (n + 32) else c)"

definition toLowerCase :: "string \<Rightarrow> string" where
  "toLowerCase s = map toLowerChar s"

definition isWhiteSpace :: "char \<Rightarrow> bool" where
  "isWhiteSpace c = (let n = (of_char c :: nat) in (9 \<le> n \<and> n \<le> 13) \<or> n = 32)"

definition trim :: "string \<Rightarrow> string" where
  "trim s = rev (dropWhile isWhiteSpace (rev (dropWhile isWhiteSpace s)))"

section \<open>Trend candidates\<close>

text \<open>
  A candidate, with the members that aggregation and generation read. \<open>position\<close> is
  set by the social-trends adapter only. Scores are numbers; they are kept exact.
\<close>

datatype trendSource = GoogleTrends | Twitter | Reddit

record trend =
  keyword :: string
  position :: "nat option"
  source :: trendSource
  category :: string
  trendScore :: rat

section \<open>Edit distance and similarity (TrendService)\<close>

text \<open>
  \<open>levenshteinDistance(str1, str2)\<close> fills a matrix with one row per prefix of
  \<open>str2\<close> and one column per prefix of \<open>str1\<close>. The inner loop over \<open>j\<close> is
  \<open>fillRow\<close>: it walks \<open>str1\<close> with the previous row (from \<open>matrix[i-1][j-1]\<close> on)
  and the cell just written, \<open>matrix[i][j-1]\<close>, and returns the cells
  \<open>matrix[i][1..]\<close>. \<open>initMatrix\<close> is the matrix after the two initialising loops
  (row 0 complete, every other row its first cell), \<open>fillMatrix\<close> the outer loop over
  \<open>i\<close>, which appends the cells of row \<open>i\<close> to it.
\<close>

fun fillRow :: "char \<Rightarrow> string \<Rightarrow> nat list \<Rightarrow> nat \<Rightarrow> nat list" where
  "fillRow c (a # as) (diag # up # rest) left =
     (let v = (if c = a then diag else min (diag + 1) (min (left + 1) (up + 1)))
      in v # fillRow c as (up # rest) v)"
| "fillRow c _ _ left = []"

definition initMatrix :: "string \<Rightarrow> string \<Rightarrow> nat list list" where
  "initMatrix str1 str2 =
     [0..<Suc (length str1)] # map (\<lambda>i. [i]) [1..<Suc (length str2)]"

function fillMatrix :: "string \<Rightarrow> string \<Rightarrow> nat \<Rightarrow> nat list list \<Rightarrow> nat list list" where
  "fillMatrix str1 str2 i m =
     (if i \<le> length str2
      then fillMatrix str1 str2 (Suc i)
             (m[i := (m ! i) @ fillRow (str2 ! (i - 1)) str1 (m ! (i - 1)) (m ! i ! 0)])
      else m)"
  by pat_completeness auto
termination
  by (relation "measure (\<lambda>(str1, str2, i, m). Suc (length str2) - i)") auto

definition levenshteinDistance :: "string \<Rightarrow> string \<Rightarrow> nat" where
  "levenshteinDistance str1 str2 =
     fillMatrix str1 str2 1 (initMatrix str1 str2) ! length str2 ! length str1"

text \<open>
  \<open>calculateSimilarity\<close> divides two integers and the caller compares the quotient
  with \<open>0.8\<close>. The quotient is kept exact here, as a rational, and compared with
  \<open>4 / 5\<close>: the division of the doubles is correctly rounded, so it gives the double
  of \<open>0.8\<close> exactly when the quotient is \<open>4 / 5\<close>, and a quotient on either side
  of \<open>4 / 5\<close> differs from it by at least \<open>1 / (5 n)\<close> for a longer string of \<open>n\<close>
  characters, far more than the rounding error for any string that fits in memory.
\<close>

definition calculateSimilarity :: "string \<Rightarrow> string \<Rightarrow> rat" where
  "calculateSimilarity str1 str2 =
     (let longer = (if length str1 > length str2 then str1 else str2);
          shorter = (if length str1 > length str2 then str2 else str1)
      in if length longer = 0 then 1
         else let editDistance = levenshteinDistance longer shorter
              in (of_nat (length longer) - of_nat editDistance) / of_nat (length longer))"

section \<open>Deduplication (TrendService)\<close>

definition normalizedKeyword :: "trend \<Rightarrow> string" where
  "normalizedKeyword t = trim (toLowerCase (keyword t))"

text \<open>The inner loop over the set \<open>seen\<close>, in insertion order, leaving at the first hit.\<close>

fun isDuplicate :: "string \<Rightarrow> string list \<Rightarrow> bool" where
  "isDuplicate k [] = False"
| "isDuplicate k (seenKeyword # seen) =
     (if calculateSimilarity k seenKeyword > 4 / 5 then True else isDuplicate k seen)"

definition setAdd :: "string list \<Rightarrow> string \<Rightarrow> string list" where
  "setAdd seen k = (if k \<in> set seen then seen else seen @ [k])"

fun dedupLoop :: "trend list \<Rightarrow> trend list \<Rightarrow> string list \<Rightarrow> trend list" where
  "dedupLoop [] unique seen = unique"
| "dedupLoop (t # ts) unique seen =
     (let k = normalizedKeyword t
      in if isDuplicate k seen then dedupLoop ts unique seen
         else dedupLoop ts (unique @ [t]) (setAdd seen k))"

definition deduplicateTrends :: "trend list \<Rightarrow> trend list" where
  "deduplicateTrends trends = dedupLoop trends [] []"

section \<open>Source adapters and aggregation (TrendService)\<close>

datatype error =
  Error string | TypeError string | SyntaxError string | ValidationError string
  | DuplicateKeyError string

text \<open>
  \<open>fetchTwitterTrends\<close> reads the list items of the scraped page. An item is its
  \<open>textContent\<close>, \<open>None\<close> when that is \<open>null\<close>; \<open>Inl\<close> stands for a browser or
  navigation failure, which the method catches and answers with the empty list.
\<close>

fun scrapeTrends :: "string option list \<Rightarrow> nat \<Rightarrow> trend list" where
  "scrapeTrends [] index = []"
| "scrapeTrends (element # elements) index =
     (if index < 20
      then (case map_option trim element of
              None \<Rightarrow> scrapeTrends elements (Suc index)
            | Some kw \<Rightarrow>
                if kw \<noteq> [] \<and> length kw > 2
                then \<lparr>keyword = kw, position = Some (index + 1), source = Twitter,
                      category = ''general'',
                      trendScore = of_int (max (100 - (int index * 5)) 10)\<rparr>
                     # scrapeTrends elements (Suc index)
                else scrapeTrends elements (Suc index))
      else scrapeTrends elements (Suc index))"

definition fetchTwitterTrends :: "error + string option list \<Rightarrow> trend list" where
  "fetchTwitterTrends page =
     (case page of Inl e \<Rightarrow> [] | Inr elements \<Rightarrow> scrapeTrends elements 0)"

text \<open>
  \<open>xs.slice(0, end)\<close> for an integer \<open>end\<close>: a negative \<open>end\<close> counts from
  the end of the array.
\<close>

definition slice0 :: "'a list \<Rightarrow> int \<Rightarrow> 'a list" where
  "slice0 xs end =
     (let len = int (length xs);
          final = (if end < 0 then max (len + end) 0 else min end len)
      in take (nat final) xs)"

text \<open>
  \<open>sort((a, b) => b.trendScore - a.trendScore)\<close>: the library sort is stable, and so
  is the insertion sort \<^const>\<open>sort_key\<close>.
\<close>

definition sortByTrendScore :: "trend list \<Rightarrow> trend list" where
  "sortByTrendScore trends = sort_key (\<lambda>t. - trendScore t) trends"

record aggOptions =
  includeGoogle :: bool
  includeTwitter :: bool
  includeReddit :: bool
  geo :: string
  aggCategory :: "string option"
  limit :: int

text \<open>
  What the outside world answers during one call of \<open>getAllTrends\<close>: the outcome of
  each adapter (\<open>Inl\<close> when its promise rejects) and of \<open>closeBrowser\<close> in the
  \<open>finally\<close> block (\<open>Some\<close> when it throws).
\<close>

record sources =
  googleOutcome :: "error + trend list"
  twitterOutcome :: "error + trend list"
  redditOutcome :: "error + trend list"
  closeOutcome :: "error option"

text \<open>\<open>try { allTrends.push(...await fetch()) } catch (error) { logger.warn(...) }\<close>\<close>

definition tryPush :: "trend list \<Rightarrow> error + trend list \<Rightarrow> trend list" where
  "tryPush allTrends outcome =
     (case outcome of Inl e \<Rightarrow> allTrends | Inr fetched \<Rightarrow> allTrends @ fetched)"

definition getAllTrends :: "aggOptions \<Rightarrow> sources \<Rightarrow> error + trend list" where
  "getAllTrends options w =
     (let allTrends = [];
          allTrends = (if includeGoogle options then tryPush allTrends (googleOutcome w)
                       else allTrends);
          allTrends = (if includeTwitter options then tryPush allTrends (twitterOutcome w)
                       else allTrends);
          allTrends = (if includeReddit options then tryPush allTrends (redditOutcome w)
                       else allTrends);
          uniqueTrends = deduplicateTrends allTrends;
          sortedTrends = slice0 (sortByTrendScore uniqueTrends) (limit options)
      in case closeOutcome w of Some e \<Rightarrow> Inl e | None \<Rightarrow> Inr sortedTrends)"

text \<open>
  The candidates an adapter contributes, in the words of the specification: those it
  fetched when it is enabled and succeeds, none otherwise.
\<close>

definition contributed :: "bool \<Rightarrow> error + trend list \<Rightarrow> trend list" where
  "contributed enabled outcome =
     (if enabled then (case outcome of Inl e \<Rightarrow> [] | Inr fetched \<Rightarrow> fetched) else [])"

section \<open>String operations used by the content generator\<close>

definition newline :: string where
  "newline = [CHR 0x0A]"

text \<open>\<open>s.startsWith(p)\<close> and \<open>s.includes(p)\<close>.\<close>

definition startsWith :: "string \<Rightarrow> string \<Rightarrow> bool" where
  "startsWith s p = prefix p s"

fun includesStr :: "string \<Rightarrow> string \<Rightarrow> bool" where
  "includesStr [] p = (p = [])"
| "includesStr (c # cs) p = (prefix p (c # cs) \<or> includesStr cs p)"

text \<open>
  \<open>s.split(sep)\<close> for a non-empty separator string: the pieces between the
  occurrences of \<open>sep\<close>, found from left to right; a string without the separator is
  its own single piece.
\<close>

function splitFrom :: "string \<Rightarrow> string \<Rightarrow> string \<Rightarrow> string list" where
  "splitFrom sep piece [] = [rev piece]"
| "splitFrom sep piece (c # cs) =
     (if prefix sep (c # cs) then rev piece # splitFrom sep [] (drop (length sep - 1) cs)
      else splitFrom sep (c # piece) cs)"
  by pat_completeness auto
termination
  by (relation "measure (\<lambda>(sep, piece, s). length s)") auto

definition split :: "string \<Rightarrow> string \<Rightarrow> string list" where
  "split s sep = splitFrom sep [] s"

text \<open>\<open>s.replace(pat, rep)\<close> with a string pattern: the first occurrence only.\<close>

fun replaceFirst :: "string \<Rightarrow> string \<Rightarrow> string \<Rightarrow> string" where
  "replaceFirst pat rep [] = (if pat = [] then rep else [])"
| "replaceFirst pat rep (c # cs) =
     (if prefix pat (c # cs) then rep @ drop (length pat) (c # cs)
      else c # replaceFirst pat rep cs)"

text \<open>\<open>s.replace(/X+/g, '-')\<close> for a character class \<open>X\<close>: every run becomes one hyphen.\<close>

function replaceRuns :: "(char \<Rightarrow> bool) \<Rightarrow> string \<Rightarrow> string" where
  "replaceRuns X [] = []"
| "replaceRuns X (c # cs) =
     (if X c then CHR ''-'' # replaceRuns X (dropWhile X cs) else c # replaceRuns X cs)"
  by pat_completeness auto
termination
  by (relation "measure (\<lambda>(X, s). length s)") (auto simp: length_dropWhile_le less_Suc_eq_le)

text \<open>\<open>s.replace(/^#+\s*/, '')\<close>\<close>

definition stripHeading :: "string \<Rightarrow> string" where
  "stripHeading s =
     (if startsWith s ''#'' then dropWhile isWhiteSpace (dropWhile (\<lambda>c. c = CHR ''#'') s)
      else s)"

text \<open>\<open>[...new Set(xs)]\<close>: the first occurrence of each element, in order.\<close>

definition newSet :: "string list \<Rightarrow> string list" where
  "newSet xs = foldl setAdd [] xs"

text \<open>\<open>a || b\<close> on strings: the empty string is falsy.\<close>

definition orElse :: "string \<Rightarrow> string \<Rightarrow> string" where
  "orElse a b = (if a \<noteq> [] then a else b)"

section \<open>Content generator (OpenAIService)\<close>

text \<open>
  \<open>generateSlug\<close>. The class \<open>[^a-z0-9\s-]\<close> is removed, white-space runs and then
  hyphen runs become one hyphen. The last call is \<open>.trim('-')\<close>:
  \<open>String.prototype.trim\<close> takes no argument, so it strips white space.
\<close>

definition isSlugChar :: "char \<Rightarrow> bool" where
  "isSlugChar c =
     (let n = (of_char c :: nat)
      in (97 \<le> n \<and> n \<le> 122) \<or> (48 \<le> n \<and> n \<le> 57) \<or> isWhiteSpace c \<or> c = CHR ''-'')"

definition generateSlug :: "string \<Rightarrow> string" where
  "generateSlug title =
     trim (replaceRuns (\<lambda>c. c = CHR ''-'')
            (replaceRuns isWhiteSpace (filter isSlugChar (toLowerCase title))))"

record articleData =
  title :: string
  excerpt :: string
  content :: string
  tags :: "string list"
  slug :: string

record fallbackData =
  fbTitle :: string
  fbExcerpt :: string
  fbContent :: string
  fbTags :: "string list"

definition fallbackParsing :: "string \<Rightarrow> trend \<Rightarrow> fallbackData" where
  "fallbackParsing generated trendData =
     (let lines = filter (\<lambda>line. trim line \<noteq> []) (split generated newline);
          title = (case find (\<lambda>line. startsWith line ''#'' \<or> length (trim line) > 20) lines of
                     None \<Rightarrow> []
                   | Some line \<Rightarrow> trim (stripHeading line));
          paragraphs = filter (\<lambda>p. trim p \<noteq> [] \<and> \<not> startsWith p ''#'')
                         (split generated (newline @ newline));
          excerpt = (case paragraphs of [] \<Rightarrow> [] | p # ps \<Rightarrow> take 200 p @ ''...'');
          tags = toLowerCase (keyword trendData)
                 # filter (\<lambda>word. length word > 3) (split (toLowerCase (keyword trendData)) '' '')
      in \<lparr>fbTitle = orElse title (keyword trendData @ '': Latest Trends and Insights''),
          fbExcerpt = orElse excerpt
            (''Discover the latest insights about '' @ keyword trendData
             @ '' and its growing significance.''),
          fbContent = generated,
          fbTags = newSet tags\<rparr>)"

text \<open>The variables of the marker loop of \<open>parseGeneratedContent\<close>, and one turn of it.\<close>

record sections =
  secTitle :: string
  secExcerpt :: string
  secTags :: "string list"
  articleContent :: string
  currentSection :: string

definition parseLine :: "sections \<Rightarrow> string \<Rightarrow> sections" where
  "parseLine st line =
     (let trimmedLine = trim line
      in if startsWith trimmedLine ''TITLE:''
         then st\<lparr>secTitle := trim (replaceFirst ''TITLE:'' [] trimmedLine),
                 currentSection := ''title''\<rparr>
         else if startsWith trimmedLine ''EXCERPT:''
         then st\<lparr>secExcerpt := trim (replaceFirst ''EXCERPT:'' [] trimmedLine),
                 currentSection := ''excerpt''\<rparr>
         else if startsWith trimmedLine ''TAGS:''
         then (let tagString = trim (replaceFirst ''TAGS:'' [] trimmedLine)
               in st\<lparr>secTags := map (\<lambda>tag. toLowerCase (trim tag)) (split tagString '',''),
                       currentSection := ''tags''\<rparr>)
         else if startsWith trimmedLine ''CONTENT:''
         then st\<lparr>currentSection := ''content''\<rparr>
         else if currentSection st = ''content'' \<and> trimmedLine \<noteq> []
         then st\<lparr>articleContent := articleContent st @ line @ newline\<rparr>
         else st)"

definition parseSections :: "string \<Rightarrow> sections" where
  "parseSections generated =
     foldl parseLine
       \<lparr>secTitle = [], secExcerpt = [], secTags = [], articleContent = [],
        currentSection = []\<rparr>
       (split generated newline)"

definition needsFallback :: "sections \<Rightarrow> bool" where
  "needsFallback st = (secTitle st = [] \<or> secExcerpt st = [] \<or> articleContent st = [])"

definition withFallback :: "sections \<Rightarrow> string \<Rightarrow> trend \<Rightarrow> sections" where
  "withFallback st generated trendData =
     (if needsFallback st
      then (let fallbackData = fallbackParsing generated trendData
            in st\<lparr>secTitle := orElse (secTitle st) (fbTitle fallbackData),
                    secExcerpt := orElse (secExcerpt st) (fbExcerpt fallbackData),
                    articleContent := orElse (articleContent st) (fbContent fallbackData),
                    secTags := (if length (secTags st) > 0 then secTags st
                                else fbTags fallbackData)\<rparr>)
      else st)"

definition parseGeneratedContent :: "string \<Rightarrow> trend \<Rightarrow> articleData" where
  "parseGeneratedContent generated trendData =
     (let st = withFallback (parseSections generated) generated trendData
      in \<lparr>title = orElse (secTitle st)
                    (''Understanding '' @ keyword trendData @ '': A Comprehensive Guide''),
          excerpt = orElse (secExcerpt st)
                    (''Explore the trending topic of '' @ keyword trendData
                     @ '' and discover its impact and significance.''),
          content = orElse (trim (articleContent st)) generated,
          tags = (if length (secTags st) > 0 then secTags st
                  else [toLowerCase (keyword trendData)]),
          slug = generateSlug (orElse (secTitle st) (keyword trendData))\<rparr>)"

text \<open>The response has no \<open>TAGS:\<close> marker: no line, trimmed, starts with it.\<close>

definition noTagsMarker :: "string \<Rightarrow> bool" where
  "noTagsMarker generated =
     list_all (\<lambda>line. \<not> startsWith (trim line) ''TAGS:'') (split generated newline)"

section \<open>SEO metadata (OpenAIService)\<close>

text \<open>
  The value \<open>JSON.parse\<close> returns. \<open>JSON.parse\<close> itself is the platform's and is a
  parameter of the model: \<open>Inl\<close> is its \<open>SyntaxError\<close>.
\<close>

datatype json =
  JNull | JBool bool | JNumber rat | JString string | JArray "json list"
  | JObject "(string \<times> json) list"

fun truthy :: "json \<Rightarrow> bool" where
  "truthy JNull = False"
| "truthy (JBool b) = b"
| "truthy (JNumber n) = (n \<noteq> 0)"
| "truthy (JString s) = (s \<noteq> [])"
| "truthy (JArray xs) = True"
| "truthy (JObject kvs) = True"

text \<open>
  \<open>seoData.name\<close> for one of the five metadata names: a \<open>TypeError\<close> on \<open>null\<close>,
  the member of an object, \<open>undefined\<close> (\<open>None\<close>) on every other value.
\<close>

fun getProp :: "json \<Rightarrow> string \<Rightarrow> error + json option" where
  "getProp JNull name = Inl (TypeError ''Cannot read properties of null'')"
| "getProp (JObject kvs) name = Inr (map_of kvs name)"
| "getProp v name = Inr None"

text \<open>\<open>value || fallback\<close>\<close>

fun orDefault :: "json option \<Rightarrow> json \<Rightarrow> json" where
  "orDefault None d = d"
| "orDefault (Some v) d = (if truthy v then v else d)"

record seo =
  metaTitle :: json
  metaDescription :: json
  seoKeywords :: json
  ogTitle :: json
  ogDescription :: json

definition seoFallback :: "articleData \<Rightarrow> trend \<Rightarrow> seo" where
  "seoFallback articleData trendData =
     \<lparr>metaTitle = JString (title articleData),
      metaDescription = JString (excerpt articleData),
      seoKeywords = JArray [JString (keyword trendData)],
      ogTitle = JString (title articleData),
      ogDescription = JString (excerpt articleData)\<rparr>"

text \<open>\<open>line.split(':')[1]?.trim()\<close>\<close>

definition fieldValue :: "string \<Rightarrow> string option" where
  "fieldValue line =
     (let pieces = split line '':''
      in if 1 < length pieces then Some (trim (pieces ! 1)) else None)"

definition seoLine :: "seo \<Rightarrow> string \<Rightarrow> seo" where
  "seoLine seoData line =
     (let trimmedLine = toLowerCase (trim line)
      in if includesStr trimmedLine ''meta title'' \<or> includesStr trimmedLine ''title:''
         then (case fieldValue line of
                 Some v \<Rightarrow> if v \<noteq> [] then seoData\<lparr>metaTitle := JString v\<rparr> else seoData
               | None \<Rightarrow> seoData)
         else if includesStr trimmedLine ''meta description''
                 \<or> includesStr trimmedLine ''description:''
         then (case fieldValue line of
                 Some v \<Rightarrow> if v \<noteq> [] then seoData\<lparr>metaDescription := JString v\<rparr> else seoData
               | None \<Rightarrow> seoData)
         else if includesStr trimmedLine ''keywords''
         then (case fieldValue line of
                 Some v \<Rightarrow>
                   if v \<noteq> []
                   then seoData\<lparr>seoKeywords := JArray (map (\<lambda>k. JString (trim k)) (split v '',''))\<rparr>
                   else seoData
               | None \<Rightarrow> seoData)
         else seoData)"

text \<open>
  \<open>parseSEOContent\<close>; the reply text is \<open>None\<close> when the backend's message content
  is \<open>null\<close>, and \<open>content.split\<close> throws on it.
\<close>

definition parseSEOContent :: "string option \<Rightarrow> articleData \<Rightarrow> trend \<Rightarrow> error + seo" where
  "parseSEOContent seoContent articleData trendData =
     (case seoContent of
        None \<Rightarrow> Inl (TypeError ''Cannot read properties of null'')
      | Some reply \<Rightarrow>
          Inr (foldl seoLine (seoFallback articleData trendData) (split reply newline)))"

text \<open>The body of the inner \<open>try\<close>: \<open>JSON.parse\<close>, then the five members.\<close>

definition seoFromJSON ::
  "(string \<Rightarrow> error + json) \<Rightarrow> string option \<Rightarrow> articleData \<Rightarrow> trend \<Rightarrow> error + seo" where
  "seoFromJSON parseJSON seoContent articleData trendData =
     (case parseJSON (case seoContent of None \<Rightarrow> ''null'' | Some reply \<Rightarrow> reply) of
        Inl e \<Rightarrow> Inl e
      | Inr seoData \<Rightarrow>
          (case getProp seoData ''metaTitle'' of Inl e \<Rightarrow> Inl e | Inr mt \<Rightarrow>
           case getProp seoData ''metaDescription'' of Inl e \<Rightarrow> Inl e | Inr md \<Rightarrow>
           case getProp seoData ''keywords'' of Inl e \<Rightarrow> Inl e | Inr kw \<Rightarrow>
           case getProp seoData ''ogTitle'' of Inl e \<Rightarrow> Inl e | Inr ot \<Rightarrow>
           case getProp seoData ''ogDescription'' of Inl e \<Rightarrow> Inl e | Inr od \<Rightarrow>
           Inr \<lparr>metaTitle = orDefault mt (JString (title articleData)),
                metaDescription = orDefault md (JString (excerpt articleData)),
                seoKeywords = orDefault kw (JArray [JString (keyword trendData)]),
                ogTitle = orDefault ot (JString (title articleData)),
                ogDescription = orDefault od (JString (excerpt articleData))\<rparr>))"

text \<open>
  \<open>generateSEOMetadata\<close>. \<open>completion\<close> is what the backend call and the read of
  \<open>completion.choices[0].message.content\<close> give: \<open>Inl\<close> when either throws.
\<close>

definition generateSEOMetadata ::
  "(string \<Rightarrow> error + json) \<Rightarrow> articleData \<Rightarrow> trend \<Rightarrow> error + string option \<Rightarrow> error + seo" where
  "generateSEOMetadata parseJSON articleData trendData completion =
     (case (case completion of
              Inl e \<Rightarrow> Inl e
            | Inr seoContent \<Rightarrow>
                (case seoFromJSON parseJSON seoContent articleData trendData of
                   Inr seoData \<Rightarrow> Inr seoData
                 | Inl parseError \<Rightarrow> parseSEOContent seoContent articleData trendData)) of
        Inr seoData \<Rightarrow> Inr seoData
      | Inl e \<Rightarrow> Inr (seoFallback articleData trendData))"








section \<open>Persistence (Article model and ArticleService.createArticle)\<close>

text \<open>
  The stored document, with the members that the title check, the schema validators and
  the slug index read: those of the parsed article, the category and the SEO block.
  An absent \<open>slug\<close> is the empty string (the pre-save hook tests \<open>!this.slug\<close>).
\<close>

record article = articleData +
  articleCategory :: string
  seoMeta :: "seo option"

text \<open>
  \<open>new RegExp(title, 'i')\<close> and the store's \<open>$regex\<close> search with it. The model
  decides the patterns made of literal characters, \<open>^\<close> and \<open>$\<close>: a literal matches
  its own character up to ASCII case, \<open>^\<close> holds at the start of the subject only and
  \<open>$\<close> at its end only, and the search tries every start position. Any other pattern
  (one with \<open>\ . * + ? ( ) [ ] { } |\<close>) is left to the engine, a parameter that
  answers \<open>Inl\<close> for the \<open>SyntaxError\<close> of an invalid pattern.
\<close>

definition isPlainPattern :: "string \<Rightarrow> bool" where
  "isPlainPattern pat =
     list_all (\<lambda>c. (of_char c :: nat) \<notin> set [92, 46, 42, 43, 63, 40, 41, 91, 93, 123, 125, 124]) pat"

fun matchHere :: "string \<Rightarrow> string \<Rightarrow> bool \<Rightarrow> bool" where
  "matchHere [] s atStart = True"
| "matchHere (p # ps) s atStart =
     (if p = CHR ''^'' then atStart \<and> matchHere ps s atStart
      else if p = CHR ''$'' then s = [] \<and> matchHere ps s atStart
      else (case s of
              [] \<Rightarrow> False
            | c # cs \<Rightarrow> toLowerChar p = toLowerChar c \<and> matchHere ps cs False))"

fun searchFrom :: "string \<Rightarrow> string \<Rightarrow> bool \<Rightarrow> bool" where
  "searchFrom pat [] atStart = matchHere pat [] atStart"
| "searchFrom pat (c # cs) atStart =
     (matchHere pat (c # cs) atStart \<or> searchFrom pat cs False)"

text \<open>
  What lies outside the repository: the answers of the sources at the \<open>n\<close>-th call of
  the aggregator, the replies of the generative backend, \<open>JSON.parse\<close>, the regular
  expression engine on the patterns the model does not decide, the slug that the
  model's own \<open>generateSlug()\<close> (the \<open>slugify\<close> library, then \<open>Date.now()\<close>)
  yields at a given time for a title, and the clock at its \<open>n\<close>-th reading.
\<close>

record world =
  sourcesAt :: "nat \<Rightarrow> sources"
  articleReply :: "trend \<Rightarrow> error + string option"
  seoReply :: "trend \<Rightarrow> error + string option"
  parseJSON :: "string \<Rightarrow> error + json"
  regexOther :: "string \<Rightarrow> error + (string \<Rightarrow> bool)"
  modelSlug :: "nat \<Rightarrow> string \<Rightarrow> string"
  nowAt :: "nat \<Rightarrow> nat"

definition newRegExp :: "world \<Rightarrow> string \<Rightarrow> error + (string \<Rightarrow> bool)" where
  "newRegExp w pat =
     (if isPlainPattern pat then Inr (\<lambda>subject. searchFrom pat subject True)
      else regexOther w pat)"

text \<open>\<open>Article.findOne({title: {$regex: re}})\<close>: the first stored document that matches.\<close>

definition findOneByTitle :: "(string \<Rightarrow> bool) \<Rightarrow> article list \<Rightarrow> article option" where
  "findOneByTitle re store = find (\<lambda>doc. re (title doc)) store"

text \<open>
  \<open>new Article(articleData)\<close> and \<open>save()\<close> after the schema in \<open>Article.js\<close>: the
  title is trimmed when set; \<open>title\<close>, \<open>content\<close> and \<open>excerpt\<close> are required,
  \<open>title\<close> has at most 200 and \<open>excerpt\<close> at most 300 characters, \<open>category\<close> is one
  of the enumerated values; the pre-save hook fills an empty slug; the unique index on
  \<open>slug\<close> rejects a slug that is already stored.
\<close>

definition categoryEnum :: "string list" where
  "categoryEnum =
     [''technology'', ''business'', ''health'', ''entertainment'', ''sports'', ''politics'',
      ''science'', ''lifestyle'', ''travel'', ''food'', ''fashion'', ''education'', ''finance'',
      ''environment'', ''other'']"

definition newArticle :: "article \<Rightarrow> article" where
  "newArticle articleData = articleData\<lparr>title := trim (title articleData)\<rparr>"

definition validateArticle :: "article \<Rightarrow> error option" where
  "validateArticle doc =
     (if title doc = [] then Some (ValidationError ''Path `title` is required.'')
      else if length (title doc) > 200 then Some (ValidationError ''Path `title` is too long.'')
      else if content doc = [] then Some (ValidationError ''Path `content` is required.'')
      else if excerpt doc = [] then Some (ValidationError ''Path `excerpt` is required.'')
      else if length (excerpt doc) > 300
      then Some (ValidationError ''Path `excerpt` is too long.'')
      else if articleCategory doc \<notin> set categoryEnum
      then Some (ValidationError ''Path `category` is not a valid enum value.'')
      else None)"

definition preSave :: "world \<Rightarrow> nat \<Rightarrow> article \<Rightarrow> article" where
  "preSave w now doc =
     (if slug doc = [] then doc\<lparr>slug := modelSlug w now (title doc)\<rparr> else doc)"

definition save ::
  "world \<Rightarrow> nat \<Rightarrow> article \<Rightarrow> article list \<Rightarrow> error + article \<times> article list" where
  "save w now doc store =
     (case validateArticle doc of
        Some e \<Rightarrow> Inl e
      | None \<Rightarrow>
          (let saved = preSave w now doc
           in if slug saved \<in> set (map slug store)
              then Inl (DuplicateKeyError ''E11000 duplicate key error: slug'')
              else Inr (saved, store @ [saved])))"

text \<open>
  \<open>createArticle\<close>, called at time \<open>now\<close>: every error is logged and thrown again;
  the store is returned as the call leaves it.
\<close>

definition createArticle ::
  "world \<Rightarrow> nat \<Rightarrow> article \<Rightarrow> article list \<Rightarrow> (error + article) \<times> article list" where
  "createArticle w now articleData store =
     (case newRegExp w (title articleData) of
        Inl e \<Rightarrow> (Inl e, store)
      | Inr re \<Rightarrow>
          (case findOneByTitle re store of
             Some existingArticle \<Rightarrow> (Inr existingArticle, store)
           | None \<Rightarrow>
               (case save w now (newArticle articleData) store of
                  Inl e \<Rightarrow> (Inl e, store)
                | Inr (saved, store') \<Rightarrow> (Inr saved, store'))))"

text \<open>A title that is a pattern of literal characters only.\<close>

definition isLiteralTitle :: "string \<Rightarrow> bool" where
  "isLiteralTitle pat =
     (isPlainPattern pat \<and> CHR ''^'' \<notin> set pat \<and> CHR ''$'' \<notin> set pat)"

section \<open>Generation and orchestration\<close>

fun message :: "error \<Rightarrow> string" where
  "message (Error m) = m"
| "message (TypeError m) = m"
| "message (SyntaxError m) = m"
| "message (ValidationError m) = m"
| "message (DuplicateKeyError m) = m"

text \<open>
  \<open>generateArticle\<close> with the options the batch passes (none): the category is the
  default \<open>'general'\<close>. A \<open>null\<close> reply makes \<open>parseGeneratedContent\<close> throw.
\<close>

definition generateArticle :: "world \<Rightarrow> trend \<Rightarrow> error + article" where
  "generateArticle w trendData =
     (case (case articleReply w trendData of
              Inl e \<Rightarrow> Inl e
            | Inr None \<Rightarrow> Inl (TypeError ''Cannot read properties of null'')
            | Inr (Some generatedContent) \<Rightarrow>
                (let articleData = parseGeneratedContent generatedContent trendData
                 in case generateSEOMetadata (parseJSON w) articleData trendData
                           (seoReply w trendData) of
                      Inl e \<Rightarrow> Inl e
                    | Inr seoData \<Rightarrow>
                        Inr \<lparr>title = title articleData, excerpt = excerpt articleData,
                             content = content articleData, tags = tags articleData,
                             slug = slug articleData, articleCategory = ''general'',
                             seoMeta = Some seoData\<rparr>)) of
        Inl e \<Rightarrow> Inl (Error (''Failed to generate article: '' @ message e))
      | Inr finalArticle \<Rightarrow> Inr finalArticle)"

text \<open>
  The loop of \<open>generateMultipleArticles\<close> over \<open>trends.slice(0, maxArticles)\<close>; a
  failed generation is logged and skipped. The pause between calls is not modelled.
\<close>

fun generateEach :: "world \<Rightarrow> trend list \<Rightarrow> article list \<Rightarrow> article list" where
  "generateEach w [] articles = articles"
| "generateEach w (trendData # rest) articles =
     (case generateArticle w trendData of
        Inr generated \<Rightarrow> generateEach w rest (articles @ [generated])
      | Inl e \<Rightarrow> generateEach w rest articles)"

definition generateMultipleArticles :: "world \<Rightarrow> trend list \<Rightarrow> int \<Rightarrow> article list" where
  "generateMultipleArticles w trends maxArticles =
     generateEach w (slice0 trends maxArticles) []"

text \<open>
  The process state: the route's cache, the store, the calls of \<open>getAllTrends\<close> made so
  far, each with its options, and the number of clock readings.
\<close>

record cache =
  cacheData :: "trend list option"
  cacheTimestamp :: "nat option"
  ttl :: nat

record system =
  trendsCache :: cache
  store :: "article list"
  aggCalls :: "aggOptions list"
  clockReads :: nat

definition callGetAllTrends ::
  "world \<Rightarrow> aggOptions \<Rightarrow> system \<Rightarrow> (error + trend list) \<times> system" where
  "callGetAllTrends w options st =
     (getAllTrends options (sourcesAt w (length (aggCalls st))),
      st\<lparr>aggCalls := aggCalls st @ [options]\<rparr>)"

definition dateNow :: "world \<Rightarrow> system \<Rightarrow> nat \<times> system" where
  "dateNow w st = (nowAt w (clockReads st), st\<lparr>clockReads := Suc (clockReads st)\<rparr>)"

text \<open>The saving loop of \<open>generateArticlesFromTrends\<close>: a failed save is logged and skipped.\<close>

fun saveEach :: "world \<Rightarrow> article list \<Rightarrow> article list \<Rightarrow> system \<Rightarrow> article list \<times> system" where
  "saveEach w [] savedArticles st = (savedArticles, st)"
| "saveEach w (articleData # rest) savedArticles st =
     (let (now, st1) = dateNow w st;
          (outcome, store') = createArticle w now articleData (store st1);
          st2 = st1\<lparr>store := store'\<rparr>
      in case outcome of
           Inr saved \<Rightarrow> saveEach w rest (savedArticles @ [saved]) st2
         | Inl e \<Rightarrow> saveEach w rest savedArticles st2)"

text \<open>
  The options of \<open>generateArticlesFromTrends\<close> with its defaults. Both callers also
  pass \<open>trends\<close>; the method does not read that member.
\<close>

record genOptions =
  maxArticles :: int
  categories :: "string list"
  optGeo :: string
  optIncludeGoogle :: bool
  optIncludeTwitter :: bool
  optIncludeReddit :: bool
  trends :: "trend list option"

definition defaultGenOptions :: genOptions where
  "defaultGenOptions =
     \<lparr>maxArticles = 5,
      categories = [''technology'', ''business'', ''health'', ''entertainment''],
      optGeo = ''US'', optIncludeGoogle = True, optIncludeTwitter = True,
      optIncludeReddit = False, trends = None\<rparr>"

definition generateArticlesFromTrends ::
  "world \<Rightarrow> genOptions \<Rightarrow> system \<Rightarrow> (error + article list) \<times> system" where
  "generateArticlesFromTrends w options st =
     (let (fetched, st1) =
            callGetAllTrends w
              \<lparr>includeGoogle = optIncludeGoogle options,
               includeTwitter = optIncludeTwitter options,
               includeReddit = optIncludeReddit options,
               geo = optGeo options, aggCategory = None,
               limit = maxArticles options * 2\<rparr> st
      in case fetched of
           Inl e \<Rightarrow> (Inl e, st1)
         | Inr found \<Rightarrow>
             if length found = 0 then (Inr [], st1)
             else (let filteredTrends =
                         (if length (categories options) > 0
                          then filter (\<lambda>t. category t \<in> set (categories options)) found
                          else found);
                       selectedTrends = slice0 filteredTrends (maxArticles options);
                       generatedArticles = generateMultipleArticles w selectedTrends 5;
                       (savedArticles, st2) = saveEach w generatedArticles [] st1
                   in (Inr savedArticles, st2)))"

text \<open>
  The handler of \<open>POST /generate-articles\<close> in \<open>routes/trends.js\<close>, after validation
  and authentication. The answer is the \<open>data\<close> and \<open>trendsUsed\<close> of the success
  response, or the error of the 500 response.
\<close>

record generateRequest =
  reqMaxArticles :: int
  reqCategories :: "string list"
  useCache :: bool

record generateResponse =
  responseData :: "article list"
  trendsUsed :: "string list"

definition cachedTrends :: "bool \<Rightarrow> cache \<Rightarrow> nat \<Rightarrow> trend list" where
  "cachedTrends use c now =
     (case (cacheData c, cacheTimestamp c) of
        (Some cached, Some timestamp) \<Rightarrow>
          if use \<and> timestamp \<noteq> 0
          then (let cacheAge = int now - int timestamp
                in if cacheAge < int (ttl c) then cached else [])
          else []
      | _ \<Rightarrow> [])"

definition generateArticlesHandler ::
  "world \<Rightarrow> generateRequest \<Rightarrow> system \<Rightarrow> (error + generateResponse) \<times> system" where
  "generateArticlesHandler w body st =
     (let (now, st0) =
            (if useCache body \<and> cacheData (trendsCache st) \<noteq> None
                \<and> cacheTimestamp (trendsCache st) \<noteq> None
                \<and> cacheTimestamp (trendsCache st) \<noteq> Some 0
             then dateNow w st else (0, st));
          fromCache = cachedTrends (useCache body) (trendsCache st) now;
          (fetched, st1) =
            (if length fromCache = 0
             then callGetAllTrends w
                    \<lparr>includeGoogle = True, includeTwitter = True, includeReddit = False,
                     geo = ''US'', aggCategory = None, limit = reqMaxArticles body * 3\<rparr> st0
             else (Inr fromCache, st0))
      in case fetched of
           Inl e \<Rightarrow> (Inl e, st1)
         | Inr found \<Rightarrow>
             (let (generated, st2) =
                    generateArticlesFromTrends w
                      (defaultGenOptions
                         \<lparr>maxArticles := reqMaxArticles body,
                          categories := reqCategories body,
                          trends := Some (slice0 found (reqMaxArticles body * 2))\<rparr>) st1
              in case generated of
                   Inl e \<Rightarrow> (Inl e, st2)
                 | Inr articles \<Rightarrow>
                     (Inr \<lparr>responseData = articles,
                           trendsUsed = map keyword (slice0 found (reqMaxArticles body))\<rparr>,
                      st2)))"

text \<open>
  The cache is fresh and holds candidates: the state in which the batch is said to
  reuse them.
\<close>

definition cacheFresh :: "cache \<Rightarrow> nat \<Rightarrow> bool" where
  "cacheFresh c now =
     (case (cacheData c, cacheTimestamp c) of
        (Some cached, Some timestamp) \<Rightarrow>
          cached \<noteq> [] \<and> timestamp \<noteq> 0 \<and> int now - int timestamp < int (ttl c)
      | _ \<Rightarrow> False)"

section \<open>The recurrence behind the matrix\<close>

text \<open>
  \<open>ed xs ys\<close> is the recurrence the loops compute, on the reversed prefixes: the heads
  are the last characters of the prefixes.
\<close>

fun ed :: "string \<Rightarrow> string \<Rightarrow> nat" where
  "ed [] ys = length ys"
| "ed (x # xs) [] = Suc (length xs)"
| "ed (x # xs) (y # ys) =
     (if x = y then ed xs ys
      else min (ed xs ys + 1) (min (ed (x # xs) ys + 1) (ed xs (y # ys) + 1)))"

fun edRow :: "string \<Rightarrow> string \<Rightarrow> string \<Rightarrow> nat list" where
  "edRow s2 acc [] = [ed s2 acc]"
| "edRow s2 acc (a # as) = ed s2 acc # edRow s2 (a # acc) as"

text \<open>
  The matrix when the outer loop reaches row \<open>i\<close>: the rows before it are filled, the
  rows from \<open>i\<close> on still hold their first cell only.
\<close>

definition rowsInv :: "string \<Rightarrow> string \<Rightarrow> nat \<Rightarrow> nat list list" where
  "rowsInv str1 str2 i =
     map (\<lambda>k. edRow (rev (take k str2)) [] str1) [0..<i]
     @ map (\<lambda>k. [k]) [i..<Suc (length str2)]"

section \<open>Properties of the edit distance\<close>

lemma ed_Nil2: "ed xs [] = length xs" by (cases xs) auto
lemma edRow_ne: "edRow s2 acc as = ed s2 acc # tl (edRow s2 acc as)"
  by (cases as) auto
lemma length_edRow: "length (edRow s2 acc as) = Suc (length as)"
  by (induction as arbitrary: acc) auto
lemma fillRow_edRow: "fillRow c as (edRow s2 acc as) (ed (c # s2) acc) = tl (edRow (c # s2) acc as)"
proof (induction as arbitrary: acc)
  case Nil show ?case by simp
next
  case (Cons a as)
  obtain r where r: "edRow s2 (a # acc) as = ed s2 (a # acc) # r"
    using edRow_ne by blast
  obtain r' where r': "edRow (c # s2) (a # acc) as = ed (c # s2) (a # acc) # r'"
    using edRow_ne by blast
  have "fillRow c as (ed s2 (a # acc) # r) (ed (c # s2) (a # acc)) = r'"
    using Cons.IH[of "a # acc"] r r' by simp
  then show ?case using r r'
    by (simp add: Let_def)
qed
lemma edRow_nth: "j \<le> length as \<Longrightarrow> edRow s2 acc as ! j = ed s2 (rev (take j as) @ acc)"
proof (induction as arbitrary: acc j)
  case Nil then show ?case by simp
next
  case (Cons a as)
  then show ?case by (cases j) simp_all
qed
lemma edRow_Nil: "edRow [] [] as = [0..<Suc (length as)]"
  by (rule nth_equalityI) (simp_all add: length_edRow edRow_nth less_Suc_eq_le del: upt_Suc)

lemma nextRow: "[Suc (length s2)] @ fillRow c str1 (edRow s2 [] str1) ([Suc (length s2)] ! 0) = edRow (c # s2) [] str1"
  using fillRow_edRow[of c str1 s2 "[]"] edRow_ne[of "c # s2" "[]" str1] by (simp add: ed_Nil2)

lemma fillMatrix_inv:
  "1 \<le> i \<Longrightarrow> i \<le> Suc (length str2) \<Longrightarrow>
   fillMatrix str1 str2 i (rowsInv str1 str2 i) = rowsInv str1 str2 (Suc (length str2))"
proof (induction str1 str2 i "rowsInv str1 str2 i" rule: fillMatrix.induct)
  case (1 str1 str2 i)
  show ?case
  proof (cases "i \<le> length str2")
    case False
    with 1(3) have "i = Suc (length str2)" by simp
    then show ?thesis by (subst fillMatrix.simps) simp
  next
    case True
    let ?m = "rowsInv str1 str2 i"
    obtain i' where i': "i = Suc i'" using 1(2) by (cases i) auto
    have mi: "?m ! i = [i]" using True
      by (simp add: rowsInv_def nth_append upt_conv_Cons del: upt_Suc)
    have mp: "?m ! (i - 1) = edRow (rev (take i' str2)) [] str1" using True i'
      by (simp add: rowsInv_def nth_append del: upt_Suc)
    have tk: "rev (take i str2) = str2 ! i' # rev (take i' str2)" using True i'
      by (simp add: take_Suc_conv_app_nth)
    have upd: "?m[i := (?m ! i) @ fillRow (str2 ! (i - 1)) str1 (?m ! (i - 1)) (?m ! i ! 0)]
        = rowsInv str1 str2 (Suc i)"
    proof -
      have "(?m ! i) @ fillRow (str2 ! (i - 1)) str1 (?m ! (i - 1)) (?m ! i ! 0) = edRow (rev (take i str2)) [] str1"
        unfolding mi mp tk using nextRow[of "rev (take i' str2)" "str2 ! i'" str1] True i' by simp
      moreover have "?m[i := edRow (rev (take i str2)) [] str1] = rowsInv str1 str2 (Suc i)"
      proof -
        have a: "[i..<Suc (length str2)] = i # [Suc i..<Suc (length str2)]"
          using True by (simp add: upt_conv_Cons del: upt_Suc)
        have b: "[0..<Suc i] = [0..<i] @ [i]" by simp
        show ?thesis unfolding rowsInv_def a b
          by (simp add: list_update_append del: upt_Suc)
      qed
      ultimately show ?thesis by simp
    qed
    have "fillMatrix str1 str2 i ?m = fillMatrix str1 str2 (Suc i) (rowsInv str1 str2 (Suc i))"
      using True upd by (subst fillMatrix.simps) simp
    also have "\<dots> = rowsInv str1 str2 (Suc (length str2))"
      using 1(1)[OF True upd] True by simp
    finally show ?thesis .
  qed
qed

lemma initMatrix_inv: "initMatrix str1 str2 = rowsInv str1 str2 1"
proof -
  have "[0..<1] = [0::nat]" by simp
  then show ?thesis
    by (simp add: initMatrix_def rowsInv_def edRow_Nil del: upt_Suc)
qed

lemma levenshteinDistance_ed: "levenshteinDistance str1 str2 = ed (rev str2) (rev str1)"
proof -
  have "fillMatrix str1 str2 1 (initMatrix str1 str2) = rowsInv str1 str2 (Suc (length str2))"
    unfolding initMatrix_inv by (rule fillMatrix_inv) simp_all
  then show ?thesis
    by (simp add: levenshteinDistance_def rowsInv_def nth_append edRow_nth del: upt_Suc)
qed

lemma ed_sym: "ed xs ys = ed ys xs"
proof (induction xs ys rule: ed.induct)
  case (1 ys) show ?case by (simp add: ed_Nil2)
next
  case (2 x xs) show ?case by simp
next
  case (3 x xs y ys)
  then show ?case by (simp add: min.commute)
qed

lemma ed_refl: "ed xs xs = 0"
  by (induction xs) auto

lemma ed_le: "ed xs ys \<le> max (length xs) (length ys)"
proof (induction xs ys rule: ed.induct)
  case (3 x xs y ys)
  then show ?case by (simp split: if_splits) linarith+
qed simp_all

lemma levenshteinDistance_sym: "levenshteinDistance a b = levenshteinDistance b a"
  by (simp add: levenshteinDistance_ed ed_sym)

lemma levenshteinDistance_same: "levenshteinDistance a a = 0"
  by (simp add: levenshteinDistance_ed ed_refl)

lemma levenshteinDistance_le: "levenshteinDistance a b \<le> max (length a) (length b)"
  using ed_le[of "rev b" "rev a"] by (simp add: levenshteinDistance_ed max.commute)

lemma calculateSimilarity_sym: "calculateSimilarity a b = calculateSimilarity b a"
proof -
  consider "length a > length b" | "length a < length b" | "length a = length b"
    by linarith
  then show ?thesis
  proof cases
    case 3
    then have "a = [] \<longleftrightarrow> b = []" by auto
    with 3 show ?thesis
      by (auto simp add: calculateSimilarity_def Let_def levenshteinDistance_sym[of a b])
  qed (simp_all add: calculateSimilarity_def Let_def)
qed

lemma calculateSimilarity_bounds:
  "0 \<le> calculateSimilarity a b \<and> calculateSimilarity a b \<le> 1"
proof -
  define longer where "longer = (if length a > length b then a else b)"
  define shorter where "shorter = (if length a > length b then b else a)"
  have le: "levenshteinDistance longer shorter \<le> length longer"
    using levenshteinDistance_le[of longer shorter]
    by (simp add: longer_def shorter_def split: if_splits)
  have cs: "calculateSimilarity a b =
      (if length longer = 0 then 1
       else (of_nat (length longer) - of_nat (levenshteinDistance longer shorter))
            / of_nat (length longer))"
    by (simp add: calculateSimilarity_def Let_def longer_def shorter_def)
  show ?thesis
  proof (cases "length longer = 0")
    case True then show ?thesis using cs by simp
  next
    case False
    then have pos: "(0::rat) < of_nat (length longer)" by simp
    have d: "(of_nat (levenshteinDistance longer shorter) :: rat) \<le> of_nat (length longer)"
      using le by (simp only: of_nat_le_iff)
    have d0: "(0::rat) \<le> of_nat (levenshteinDistance longer shorter)" by simp
    show ?thesis using False cs pos d d0
      by (simp add: divide_le_eq_1 zero_le_divide_iff)
  qed
qed

lemma calculateSimilarity_same: "calculateSimilarity a a = 1"
  by (simp add: calculateSimilarity_def Let_def levenshteinDistance_same)

text \<open>
  C10. \<open>calculateSimilarity\<close> is symmetric, its value lies between 0 and 1, and two equal
  strings (the two empty strings among them) have similarity exactly 1.
\<close>

theorem calculateSimilarity_symmetric_bounded:
  "calculateSimilarity a b = calculateSimilarity b a
   \<and> 0 \<le> calculateSimilarity a b \<and> calculateSimilarity a b \<le> 1
   \<and> calculateSimilarity a a = 1 \<and> calculateSimilarity [] [] = 1"
  using calculateSimilarity_sym [of a b] calculateSimilarity_bounds [of a b]
    calculateSimilarity_same [of a] calculateSimilarity_same [of "[]"]
  by simp

theorem calculateSimilarity_symmetric_bounded_witness:
  "calculateSimilarity ''kitten'' ''sitting'' = calculateSimilarity ''sitting'' ''kitten''
   \<and> 0 \<le> calculateSimilarity ''kitten'' ''sitting''
   \<and> calculateSimilarity ''kitten'' ''sitting'' \<le> 1
   \<and> calculateSimilarity ''kitten'' ''kitten'' = 1"
  using calculateSimilarity_symmetric_bounded [of "''kitten''" "''sitting''"] by blast

section \<open>Properties of deduplication\<close>

lemma isDuplicate_iff:
  "isDuplicate k seen \<longleftrightarrow> (\<exists>s\<in>set seen. calculateSimilarity k s > 4 / 5)"
  by (induction seen) auto

lemma set_setAdd: "set (setAdd seen k) = insert k (set seen)"
  by (auto simp: setAdd_def)

lemma dedupLoop_snoc:
  "set seen = normalizedKeyword ` set unique \<Longrightarrow>
   dedupLoop (ts @ [t]) unique seen =
     (if \<exists>u\<in>set (dedupLoop ts unique seen).
           calculateSimilarity (normalizedKeyword t) (normalizedKeyword u) > 4 / 5
      then dedupLoop ts unique seen else dedupLoop ts unique seen @ [t])"
proof (induction ts arbitrary: unique seen)
  case Nil
  then show ?case by (auto simp: isDuplicate_iff Let_def)
next
  case (Cons x xs)
  show ?case
  proof (cases "isDuplicate (normalizedKeyword x) seen")
    case True
    then show ?thesis using Cons.IH[OF Cons.prems] by (simp add: Let_def)
  next
    case False
    have inv: "set (setAdd seen (normalizedKeyword x)) = normalizedKeyword ` set (unique @ [x])"
      using Cons.prems by (simp add: set_setAdd)
    show ?thesis using False Cons.IH[OF inv] by (simp add: Let_def)
  qed
qed

lemma deduplicateTrends_snoc:
  "deduplicateTrends (ts @ [t]) =
     (if \<exists>u\<in>set (deduplicateTrends ts).
           calculateSimilarity (normalizedKeyword t) (normalizedKeyword u) > 4 / 5
      then deduplicateTrends ts else deduplicateTrends ts @ [t])"
  unfolding deduplicateTrends_def by (rule dedupLoop_snoc) simp

lemma deduplicateTrends_Nil: "deduplicateTrends [] = []"
  by (simp add: deduplicateTrends_def)

lemma deduplicateTrends_subseq: "subseq (deduplicateTrends ts) ts"
proof (induction ts rule: rev_induct)
  case Nil
  show ?case by (simp add: deduplicateTrends_Nil)
next
  case (snoc t ts)
  then show ?case
    by (simp add: deduplicateTrends_snoc list_emb_prefix)
qed

lemma deduplicateTrends_pairwise:
  "sorted_wrt (\<lambda>a b. calculateSimilarity (normalizedKeyword a) (normalizedKeyword b) \<le> 4 / 5)
     (deduplicateTrends ts)"
proof (induction ts rule: rev_induct)
  case Nil
  show ?case by (simp add: deduplicateTrends_Nil)
next
  case (snoc t ts)
  show ?case
  proof (cases "\<exists>u\<in>set (deduplicateTrends ts).
           calculateSimilarity (normalizedKeyword t) (normalizedKeyword u) > 4 / 5")
    case True
    then show ?thesis using snoc by (simp add: deduplicateTrends_snoc)
  next
    case False
    then have "\<forall>u\<in>set (deduplicateTrends ts).
        calculateSimilarity (normalizedKeyword u) (normalizedKeyword t) \<le> 4 / 5"
      using calculateSimilarity_sym by (auto simp: not_less)
    with False snoc show ?thesis
      by (simp add: deduplicateTrends_snoc sorted_wrt_append)
  qed
qed

text \<open>
  C1 (as amended). No two retained candidates have normalized-keyword similarity above
  0.8 and the retained candidates keep their input order. A candidate is dropped exactly
  when its similarity to a candidate retained before it exceeds 0.8: the comparison is
  with the accepted candidates only, so a candidate that is similar to an earlier dropped
  one may itself be retained.
\<close>

theorem deduplicateTrends_first_accepted_wins:
  "(\<forall>i j. i < j \<longrightarrow> j < length (deduplicateTrends ts) \<longrightarrow>
      calculateSimilarity (normalizedKeyword (deduplicateTrends ts ! i))
                          (normalizedKeyword (deduplicateTrends ts ! j)) \<le> 4 / 5)
   \<and> subseq (deduplicateTrends ts) ts
   \<and> deduplicateTrends (ts @ [t]) =
       (if \<exists>u\<in>set (deduplicateTrends ts).
             calculateSimilarity (normalizedKeyword t) (normalizedKeyword u) > 4 / 5
        then deduplicateTrends ts else deduplicateTrends ts @ [t])"
  using deduplicateTrends_pairwise [of ts] deduplicateTrends_subseq [of ts]
    deduplicateTrends_snoc [of ts t]
  by (simp add: sorted_wrt_iff_nth_less)

theorem deduplicateTrends_first_accepted_wins_witness:
  "deduplicateTrends
     [\<lparr>keyword = ''Quantum Computing'', position = None, source = GoogleTrends,
        category = ''general'', trendScore = 90\<rparr>,
      \<lparr>keyword = ''quantum computing!!'', position = None, source = GoogleTrends,
        category = ''general'', trendScore = 85\<rparr>,
      \<lparr>keyword = ''Climate Change'', position = None, source = GoogleTrends,
        category = ''general'', trendScore = 70\<rparr>]
   = [\<lparr>keyword = ''Quantum Computing'', position = None, source = GoogleTrends,
        category = ''general'', trendScore = 90\<rparr>,
      \<lparr>keyword = ''Climate Change'', position = None, source = GoogleTrends,
        category = ''general'', trendScore = 70\<rparr>]
   \<and> calculateSimilarity
       (normalizedKeyword \<lparr>keyword = ''Quantum Computing'', position = None, source = GoogleTrends,
        category = ''general'', trendScore = 90\<rparr>)
       (normalizedKeyword \<lparr>keyword = ''Climate Change'', position = None, source = GoogleTrends,
        category = ''general'', trendScore = 70\<rparr>) \<le> 4 / 5"
proof -
  let ?ts = "[\<lparr>keyword = ''Quantum Computing'', position = None, source = GoogleTrends,
        category = ''general'', trendScore = 90\<rparr>,
      \<lparr>keyword = ''quantum computing!!'', position = None, source = GoogleTrends,
        category = ''general'', trendScore = 85\<rparr>]"
  let ?t = "\<lparr>keyword = ''Climate Change'', position = None, source = GoogleTrends,
        category = ''general'', trendScore = 70\<rparr>"
  have d: "deduplicateTrends ?ts
   = [\<lparr>keyword = ''Quantum Computing'', position = None, source = GoogleTrends,
        category = ''general'', trendScore = 90\<rparr>]"
    by code_simp
  have n: "\<not> calculateSimilarity (normalizedKeyword ?t)
      (normalizedKeyword \<lparr>keyword = ''Quantum Computing'', position = None, source = GoogleTrends,
        category = ''general'', trendScore = 90\<rparr>) > 4 / 5"
    by code_simp
  have e: "deduplicateTrends (?ts @ [?t])
   = [\<lparr>keyword = ''Quantum Computing'', position = None, source = GoogleTrends,
        category = ''general'', trendScore = 90\<rparr>,
      ?t]"
    using deduplicateTrends_first_accepted_wins [of ?ts ?t] d n by simp
  have "\<forall>i j. i < j \<longrightarrow> j < length (deduplicateTrends (?ts @ [?t])) \<longrightarrow>
      calculateSimilarity (normalizedKeyword (deduplicateTrends (?ts @ [?t]) ! i))
                          (normalizedKeyword (deduplicateTrends (?ts @ [?t]) ! j)) \<le> 4 / 5"
    using deduplicateTrends_first_accepted_wins [of "?ts @ [?t]" ?t] by (rule conjunct1)
  from this [rule_format, of 0 1] e show ?thesis by simp
qed

text \<open>
  C1 as stated fails: \<open>trendz\<close> and \<open>tremdz\<close> exceed the threshold, the earlier one
  is dropped (it is too close to \<open>trends\<close>) and the later one is retained.
\<close>

theorem deduplicateTrends_later_survives_counterexample:
  "calculateSimilarity
     (normalizedKeyword \<lparr>keyword = ''trendz'', position = None, source = GoogleTrends,
        category = ''general'', trendScore = 85\<rparr>)
     (normalizedKeyword \<lparr>keyword = ''tremdz'', position = None, source = GoogleTrends,
        category = ''general'', trendScore = 70\<rparr>) > 4 / 5
   \<and> deduplicateTrends
     [\<lparr>keyword = ''trends'', position = None, source = GoogleTrends,
        category = ''general'', trendScore = 90\<rparr>,
      \<lparr>keyword = ''trendz'', position = None, source = GoogleTrends,
        category = ''general'', trendScore = 85\<rparr>,
      \<lparr>keyword = ''tremdz'', position = None, source = GoogleTrends,
        category = ''general'', trendScore = 70\<rparr>]
   = [\<lparr>keyword = ''trends'', position = None, source = GoogleTrends,
        category = ''general'', trendScore = 90\<rparr>,
      \<lparr>keyword = ''tremdz'', position = None, source = GoogleTrends,
        category = ''general'', trendScore = 70\<rparr>]"
  by code_simp

section \<open>Properties of aggregation\<close>

lemma sortByTrendScore_sorted:
  "sorted_wrt (\<lambda>a b. trendScore a \<ge> trendScore b) (sortByTrendScore ts)"
proof -
  have "sorted (map (\<lambda>t. - trendScore t) (sortByTrendScore ts))"
    unfolding sortByTrendScore_def by (rule sorted_sort_key)
  then show ?thesis by (simp add: sorted_map)
qed

lemma slice0_sorted:
  "sorted_wrt P xs \<Longrightarrow> sorted_wrt P (slice0 xs e)"
  by (simp add: slice0_def Let_def sorted_wrt_take)

lemma length_slice0: "0 \<le> e \<Longrightarrow> int (length (slice0 xs e)) \<le> e"
  by (simp add: slice0_def Let_def)

lemma length_slice0_neg:
  "e < 0 \<Longrightarrow> int (length (slice0 xs e)) = max (int (length xs) + e) 0"
  by (simp add: slice0_def Let_def)

lemma getAllTrends_eq:
  "getAllTrends opts w =
     (case closeOutcome w of
        Some e \<Rightarrow> Inl e
      | None \<Rightarrow> Inr (slice0 (sortByTrendScore (deduplicateTrends
                 (contributed (includeGoogle opts) (googleOutcome w)
                  @ contributed (includeTwitter opts) (twitterOutcome w)
                  @ contributed (includeReddit opts) (redditOutcome w)))) (limit opts)))"
  by (simp add: getAllTrends_def contributed_def tryPush_def Let_def
      split: sum.splits option.splits)

lemma contributed_failed:
  "(enabled \<longrightarrow> isl outcome) \<Longrightarrow> contributed enabled outcome = []"
  by (auto simp: contributed_def split: sum.splits)
lemma sortByTrendScore_Nil: "sortByTrendScore [] = []"
  by (simp add: sortByTrendScore_def)

lemma slice0_Nil: "slice0 [] e = []"
  by (simp add: slice0_def Let_def)

text \<open>
  C2 (as amended). Whatever the adapters do, an error leaves \<open>getAllTrends\<close> only when
  closing the browser in the \<open>finally\<close> block throws, and it is that error, never an
  adapter's. When closing the browser does not throw, the call returns the ranked
  candidates of the enabled adapters that succeeded, and the empty sequence when every
  enabled adapter failed.
\<close>

theorem getAllTrends_adapter_failures_caught:
  "(\<forall>e. getAllTrends opts w = Inl e \<longrightarrow> closeOutcome w = Some e)
   \<and> (closeOutcome w = None \<longrightarrow>
        getAllTrends opts w =
          Inr (slice0 (sortByTrendScore (deduplicateTrends
                 (contributed (includeGoogle opts) (googleOutcome w)
                  @ contributed (includeTwitter opts) (twitterOutcome w)
                  @ contributed (includeReddit opts) (redditOutcome w)))) (limit opts)))
   \<and> (closeOutcome w = None
        \<and> (includeGoogle opts \<longrightarrow> isl (googleOutcome w))
        \<and> (includeTwitter opts \<longrightarrow> isl (twitterOutcome w))
        \<and> (includeReddit opts \<longrightarrow> isl (redditOutcome w))
        \<longrightarrow> getAllTrends opts w = Inr [])"
proof (intro conjI allI impI)
  fix e assume "getAllTrends opts w = Inl e"
  then show "closeOutcome w = Some e"
    by (simp add: getAllTrends_eq split: option.splits)
next
  assume "closeOutcome w = None"
  then show "getAllTrends opts w =
          Inr (slice0 (sortByTrendScore (deduplicateTrends
                 (contributed (includeGoogle opts) (googleOutcome w)
                  @ contributed (includeTwitter opts) (twitterOutcome w)
                  @ contributed (includeReddit opts) (redditOutcome w)))) (limit opts))"
    by (simp add: getAllTrends_eq)
next
  assume a: "closeOutcome w = None
        \<and> (includeGoogle opts \<longrightarrow> isl (googleOutcome w))
        \<and> (includeTwitter opts \<longrightarrow> isl (twitterOutcome w))
        \<and> (includeReddit opts \<longrightarrow> isl (redditOutcome w))"
  have "contributed (includeGoogle opts) (googleOutcome w) = []"
    using a by (intro contributed_failed) simp
  moreover have "contributed (includeTwitter opts) (twitterOutcome w) = []"
    using a by (intro contributed_failed) simp
  moreover have "contributed (includeReddit opts) (redditOutcome w) = []"
    using a by (intro contributed_failed) simp
  ultimately show "getAllTrends opts w = Inr []"
    using a by (simp add: getAllTrends_eq deduplicateTrends_Nil sortByTrendScore_Nil slice0_Nil)
qed

theorem getAllTrends_adapter_failures_caught_witness:
  "getAllTrends
     \<lparr>includeGoogle = True, includeTwitter = True, includeReddit = False,
        geo = ''US'', aggCategory = None, limit = 10\<rparr>
     \<lparr>googleOutcome = Inl (Error ''Failed to fetch Google Trends''),
        twitterOutcome = Inr [\<lparr>keyword = ''Bitcoin'', position = Some 1, source = Twitter,
        category = ''general'', trendScore = 100\<rparr>,
        \<lparr>keyword = ''Taylor Swift'', position = Some 2, source = Twitter,
        category = ''general'', trendScore = 95\<rparr>],
        redditOutcome = Inr [], closeOutcome = None\<rparr>
   = Inr [\<lparr>keyword = ''Bitcoin'', position = Some 1, source = Twitter,
        category = ''general'', trendScore = 100\<rparr>,
      \<lparr>keyword = ''Taylor Swift'', position = Some 2, source = Twitter,
        category = ''general'', trendScore = 95\<rparr>]"
proof -
  have c: "closeOutcome
     \<lparr>googleOutcome = Inl (Error ''Failed to fetch Google Trends''),
        twitterOutcome = Inr [\<lparr>keyword = ''Bitcoin'', position = Some 1, source = Twitter,
        category = ''general'', trendScore = 100\<rparr>,
        \<lparr>keyword = ''Taylor Swift'', position = Some 2, source = Twitter,
        category = ''general'', trendScore = 95\<rparr>],
        redditOutcome = Inr [], closeOutcome = None\<rparr> = None"
    by simp
  have r: "slice0 (sortByTrendScore (deduplicateTrends
       (contributed True (Inl (Error ''Failed to fetch Google Trends''))
        @ contributed True (Inr [\<lparr>keyword = ''Bitcoin'', position = Some 1, source = Twitter,
        category = ''general'', trendScore = 100\<rparr>,
      \<lparr>keyword = ''Taylor Swift'', position = Some 2, source = Twitter,
        category = ''general'', trendScore = 95\<rparr>])
        @ contributed False (Inr [])))) 10
     = [\<lparr>keyword = ''Bitcoin'', position = Some 1, source = Twitter,
        category = ''general'', trendScore = 100\<rparr>,
      \<lparr>keyword = ''Taylor Swift'', position = Some 2, source = Twitter,
        category = ''general'', trendScore = 95\<rparr>]"
    by code_simp
  show ?thesis
    using getAllTrends_adapter_failures_caught
      [of "\<lparr>includeGoogle = True, includeTwitter = True, includeReddit = False,
        geo = ''US'', aggCategory = None, limit = 10\<rparr>"
          "\<lparr>googleOutcome = Inl (Error ''Failed to fetch Google Trends''),
        twitterOutcome = Inr [\<lparr>keyword = ''Bitcoin'', position = Some 1, source = Twitter,
        category = ''general'', trendScore = 100\<rparr>,
        \<lparr>keyword = ''Taylor Swift'', position = Some 2, source = Twitter,
        category = ''general'', trendScore = 95\<rparr>],
        redditOutcome = Inr [], closeOutcome = None\<rparr>"] c r
    by simp
qed

text \<open>
  C2 as stated fails when \<open>closeBrowser\<close> throws: the error leaves \<open>getAllTrends\<close>
  although one adapter succeeded, and likewise when the only enabled adapter failed,
  where the empty sequence is claimed.
\<close>

theorem getAllTrends_close_failure_counterexample:
  "getAllTrends
     \<lparr>includeGoogle = True, includeTwitter = True, includeReddit = False,
        geo = ''US'', aggCategory = None, limit = 10\<rparr>
     \<lparr>googleOutcome = Inl (Error ''Failed to fetch Google Trends''),
        twitterOutcome = Inr [\<lparr>keyword = ''Bitcoin'', position = Some 1, source = Twitter,
        category = ''general'', trendScore = 100\<rparr>],
        redditOutcome = Inr [],
        closeOutcome = Some (Error ''Protocol error (Browser.close): Target closed'')\<rparr>
   = Inl (Error ''Protocol error (Browser.close): Target closed'')
   \<and> getAllTrends
     \<lparr>includeGoogle = True, includeTwitter = False, includeReddit = False,
        geo = ''US'', aggCategory = None, limit = 10\<rparr>
     \<lparr>googleOutcome = Inl (Error ''Failed to fetch Google Trends''),
        twitterOutcome = Inr [], redditOutcome = Inr [],
        closeOutcome = Some (Error ''Protocol error (Browser.close): Target closed'')\<rparr>
   = Inl (Error ''Protocol error (Browser.close): Target closed'')"
  by (simp add: getAllTrends_def)

text \<open>
  C8 (as amended). The sequence returned by \<open>getAllTrends\<close> is sorted in non-increasing
  order of score, and for every limit that is not negative it has at most \<open>limit\<close>
  elements.
\<close>

theorem getAllTrends_sorted_limited:
  "getAllTrends opts w = Inr ts \<Longrightarrow>
     sorted_wrt (\<lambda>a b. trendScore a \<ge> trendScore b) ts
     \<and> (0 \<le> limit opts \<longrightarrow> int (length ts) \<le> limit opts)"
  by (auto simp: getAllTrends_eq slice0_sorted sortByTrendScore_sorted length_slice0
      split: option.splits)

theorem getAllTrends_sorted_limited_witness:
  "sorted_wrt (\<lambda>a b. trendScore a \<ge> trendScore b)
     [\<lparr>keyword = ''Bitcoin'', position = Some 1, source = Twitter,
        category = ''general'', trendScore = 100\<rparr>,
      \<lparr>keyword = ''Taylor Swift'', position = Some 2, source = Twitter,
        category = ''general'', trendScore = 95\<rparr>]
   \<and> int (length
     [\<lparr>keyword = ''Bitcoin'', position = Some 1, source = Twitter,
        category = ''general'', trendScore = 100\<rparr>,
      \<lparr>keyword = ''Taylor Swift'', position = Some 2, source = Twitter,
        category = ''general'', trendScore = 95\<rparr>]) \<le> 10"
proof -
  have g: "getAllTrends
     \<lparr>includeGoogle = True, includeTwitter = True, includeReddit = False,
        geo = ''US'', aggCategory = None, limit = 10\<rparr>
     \<lparr>googleOutcome = Inl (Error ''Failed to fetch Google Trends''),
        twitterOutcome = Inr [\<lparr>keyword = ''Bitcoin'', position = Some 1, source = Twitter,
        category = ''general'', trendScore = 100\<rparr>,
        \<lparr>keyword = ''Taylor Swift'', position = Some 2, source = Twitter,
        category = ''general'', trendScore = 95\<rparr>],
        redditOutcome = Inr [], closeOutcome = None\<rparr>
   = Inr [\<lparr>keyword = ''Bitcoin'', position = Some 1, source = Twitter,
        category = ''general'', trendScore = 100\<rparr>,
      \<lparr>keyword = ''Taylor Swift'', position = Some 2, source = Twitter,
        category = ''general'', trendScore = 95\<rparr>]"
    by code_simp
  show ?thesis
    using getAllTrends_sorted_limited [OF g] by simp
qed

text \<open>
  C8 as stated fails for a negative limit: \<open>slice(0, -1)\<close> drops the last element
  only, and one element is more than \<open>-1\<close>.
\<close>

theorem getAllTrends_negative_limit_counterexample:
  "getAllTrends
     \<lparr>includeGoogle = True, includeTwitter = True, includeReddit = False,
        geo = ''US'', aggCategory = None, limit = - 1\<rparr>
     \<lparr>googleOutcome = Inl (Error ''Failed to fetch Google Trends''),
        twitterOutcome = Inr [\<lparr>keyword = ''Bitcoin'', position = Some 1, source = Twitter,
        category = ''general'', trendScore = 100\<rparr>,
        \<lparr>keyword = ''Taylor Swift'', position = Some 2, source = Twitter,
        category = ''general'', trendScore = 95\<rparr>],
        redditOutcome = Inr [], closeOutcome = None\<rparr>
   = Inr [\<lparr>keyword = ''Bitcoin'', position = Some 1, source = Twitter,
        category = ''general'', trendScore = 100\<rparr>]
   \<and> \<not> int (length
     [\<lparr>keyword = ''Bitcoin'', position = Some 1, source = Twitter,
        category = ''general'', trendScore = 100\<rparr>]) \<le> - 1"
  by code_simp

section \<open>Properties of the social-trends adapter\<close>

lemma scrapeTrends_score:
  "t \<in> set (scrapeTrends elements index) \<Longrightarrow>
   \<exists>p raw. position t = Some p \<and> index < p \<and> p \<le> 20 \<and> p \<le> index + length elements
      \<and> elements ! (p - 1 - index) = Some raw \<and> keyword t = trim raw
      \<and> trendScore t = of_int (max (100 - 5 * (int p - 1)) 10)"
proof (induction elements arbitrary: index)
  case Nil
  then show ?case by simp
next
  case (Cons element elements)
  show ?case
  proof (cases "t \<in> set (scrapeTrends elements (Suc index))")
    case True
    from Cons.IH[OF True] obtain p raw where
      p: "position t = Some p" "Suc index < p" "p \<le> 20" "p \<le> Suc index + length elements"
         "elements ! (p - 1 - Suc index) = Some raw" "keyword t = trim raw"
         "trendScore t = of_int (max (100 - 5 * (int p - 1)) 10)"
      by blast
    from p(2) have "p - 1 - index = Suc (p - 1 - Suc index)" by arith
    then have "(element # elements) ! (p - 1 - index) = elements ! (p - 1 - Suc index)"
      by (simp only: nth_Cons_Suc)
    with p show ?thesis
      by (intro exI[of _ p] exI[of _ raw]) auto
  next
    case False
    with Cons.prems obtain raw where
      e: "element = Some raw" "index < 20"
         "t = \<lparr>keyword = trim raw, position = Some (index + 1), source = Twitter,
                category = ''general'', trendScore = of_int (max (100 - (int index * 5)) 10)\<rparr>"
      by (auto split: if_splits option.splits)
    then show ?thesis
      by (intro exI[of _ "index + 1"] exI[of _ raw]) (auto simp: mult.commute)
  qed
qed

text \<open>
  C5 (as amended). Every candidate of the social-trends adapter carries its 1-based
  position \<open>p\<close> in the scraped list, at most 20, and its score is
  \<open>max(100 - 5 \<times> (p - 1), 10)\<close>: the decay counts from the 0-based index, so the top
  candidate scores 100 and the second 95.
\<close>

theorem fetchTwitterTrends_score:
  "t \<in> set (fetchTwitterTrends page) \<Longrightarrow>
   \<exists>p raw elements. page = Inr elements \<and> position t = Some p \<and> 1 \<le> p \<and> p \<le> 20
      \<and> p \<le> length elements \<and> elements ! (p - 1) = Some raw \<and> keyword t = trim raw
      \<and> trendScore t = of_int (max (100 - 5 * (int p - 1)) 10)"
proof (cases page)
  case (Inl e)
  assume "t \<in> set (fetchTwitterTrends page)"
  with Inl show ?thesis by (simp add: fetchTwitterTrends_def)
next
  case (Inr elements)
  assume "t \<in> set (fetchTwitterTrends page)"
  with Inr have "t \<in> set (scrapeTrends elements 0)"
    by (simp add: fetchTwitterTrends_def)
  from scrapeTrends_score [OF this] Inr show ?thesis
    by fastforce
qed

theorem fetchTwitterTrends_score_witness:
  "\<exists>p raw elements.
      Inr [Some ''Bitcoin'', Some '' Taylor Swift ''] = (Inr elements :: error + string option list)
      \<and> position \<lparr>keyword = ''Taylor Swift'', position = Some 2, source = Twitter,
        category = ''general'', trendScore = 95\<rparr> = Some p \<and> 1 \<le> p \<and> p \<le> 20
      \<and> p \<le> length elements \<and> elements ! (p - 1) = Some raw
      \<and> keyword \<lparr>keyword = ''Taylor Swift'', position = Some 2, source = Twitter,
        category = ''general'', trendScore = 95\<rparr> = trim raw
      \<and> trendScore \<lparr>keyword = ''Taylor Swift'', position = Some 2, source = Twitter,
        category = ''general'', trendScore = 95\<rparr> = of_int (max (100 - 5 * (int p - 1)) 10)"
proof -
  have m: "\<lparr>keyword = ''Taylor Swift'', position = Some 2, source = Twitter,
        category = ''general'', trendScore = 95\<rparr>
      \<in> set (fetchTwitterTrends (Inr [Some ''Bitcoin'', Some '' Taylor Swift '']))"
    by code_simp
  show ?thesis
    using fetchTwitterTrends_score [OF m] by simp
qed

text \<open>
  C5 as stated fails: the top-ranked candidate, at position 1, scores 100 and not
  \<open>max(100 - 5 \<times> 1, 10) = 95\<close>.
\<close>

theorem fetchTwitterTrends_top_score_counterexample:
  "fetchTwitterTrends (Inr [Some ''Bitcoin''])
   = [\<lparr>keyword = ''Bitcoin'', position = Some 1, source = Twitter,
        category = ''general'', trendScore = 100\<rparr>]
   \<and> trendScore \<lparr>keyword = ''Bitcoin'', position = Some 1, source = Twitter,
        category = ''general'', trendScore = 100\<rparr> \<noteq> of_int (max (100 - 5 * 1) 10)"
  by code_simp

section \<open>Properties of the content generator\<close>

text \<open>
  C6. The slug of a title is claimed to have no leading or trailing hyphen.
  \<open>generateSlug\<close> ends with \<open>.trim('-')\<close>, which strips white space only, and none
  is left by then: a title whose first or last kept character is a space or a hyphen
  gives a slug that starts or ends with a hyphen.
\<close>

theorem generateSlug_keeps_outer_hyphens:
  "generateSlug ''Is AI the Future ?'' = ''is-ai-the-future-''
   \<and> generateSlug ''- Breaking News'' = ''-breaking-news''"
  by code_simp

lemma parseLine_secTags:
  "\<not> startsWith (trim line) ''TAGS:'' \<Longrightarrow> secTags (parseLine st line) = secTags st"
  by (simp add: parseLine_def Let_def)

lemma foldl_parseLine_secTags:
  "list_all (\<lambda>line. \<not> startsWith (trim line) ''TAGS:'') lines \<Longrightarrow>
   secTags (foldl parseLine st lines) = secTags st"
  by (induction lines arbitrary: st) (simp_all add: parseLine_secTags)

lemma parseSections_secTags: "noTagsMarker generated \<Longrightarrow> secTags (parseSections generated) = []"
  by (simp add: noTagsMarker_def parseSections_def foldl_parseLine_secTags)

lemma foldl_setAdd_hd:
  "acc \<noteq> [] \<Longrightarrow> foldl setAdd acc xs \<noteq> [] \<and> hd (foldl setAdd acc xs) = hd acc"
  by (induction xs arbitrary: acc) (auto simp: setAdd_def)

lemma foldl_setAdd_distinct: "distinct acc \<Longrightarrow> distinct (foldl setAdd acc xs)"
  by (induction xs arbitrary: acc) (auto simp: setAdd_def)

lemma foldl_setAdd_set: "set (foldl setAdd acc xs) = set acc \<union> set xs"
  by (induction xs arbitrary: acc) (auto simp: set_setAdd)

lemma newSet_Cons: "newSet (x # xs) \<noteq> [] \<and> hd (newSet (x # xs)) = x"
  using foldl_setAdd_hd[of "[x]" xs] by (simp add: newSet_def setAdd_def)

lemma newSet_distinct: "distinct (newSet xs)"
  by (simp add: newSet_def foldl_setAdd_distinct)

lemma newSet_set: "set (newSet xs) = set xs"
  by (simp add: newSet_def foldl_setAdd_set)

lemma fbTags_fallbackParsing:
  "fbTags (fallbackParsing generated trendData) =
     newSet (toLowerCase (keyword trendData)
             # filter (\<lambda>word. length word > 3) (split (toLowerCase (keyword trendData)) '' ''))"
  by (simp add: fallbackParsing_def Let_def)

lemma tags_parseGeneratedContent:
  "noTagsMarker generated \<Longrightarrow>
   tags (parseGeneratedContent generated trendData) =
     (if needsFallback (parseSections generated)
      then newSet (toLowerCase (keyword trendData)
             # filter (\<lambda>word. length word > 3) (split (toLowerCase (keyword trendData)) '' ''))
      else [toLowerCase (keyword trendData)])"
  using newSet_Cons[of "toLowerCase (keyword trendData)"
      "filter (\<lambda>word. length word > 3) (split (toLowerCase (keyword trendData)) '' '')"]
  by (simp add: parseGeneratedContent_def withFallback_def Let_def parseSections_secTags
      fbTags_fallbackParsing)

text \<open>
  C9. When no line of the response starts with the \<open>TAGS:\<close> marker, the parsed tags
  are not empty and start with the lowercased keyword; they have no duplicates. On the
  fallback path they are the lowercased keyword followed by its words of more than three
  characters, each once; otherwise they are the lowercased keyword alone.
\<close>

theorem parseGeneratedContent_tags_without_marker:
  assumes "noTagsMarker generated"
  shows "tags (parseGeneratedContent generated trendData) \<noteq> []
    \<and> hd (tags (parseGeneratedContent generated trendData)) = toLowerCase (keyword trendData)
    \<and> distinct (tags (parseGeneratedContent generated trendData))
    \<and> (needsFallback (parseSections generated) \<longrightarrow>
         tags (parseGeneratedContent generated trendData) =
           newSet (toLowerCase (keyword trendData)
             # filter (\<lambda>word. length word > 3) (split (toLowerCase (keyword trendData)) '' ''))
         \<and> set (tags (parseGeneratedContent generated trendData)) =
           insert (toLowerCase (keyword trendData))
             {word \<in> set (split (toLowerCase (keyword trendData)) '' ''). length word > 3})
    \<and> (\<not> needsFallback (parseSections generated) \<longrightarrow>
         tags (parseGeneratedContent generated trendData) = [toLowerCase (keyword trendData)])"
  using tags_parseGeneratedContent[OF assms, of trendData]
    newSet_Cons[of "toLowerCase (keyword trendData)"
      "filter (\<lambda>word. length word > 3) (split (toLowerCase (keyword trendData)) '' '')"]
    newSet_distinct[of "toLowerCase (keyword trendData)
      # filter (\<lambda>word. length word > 3) (split (toLowerCase (keyword trendData)) '' '')"]
    newSet_set[of "toLowerCase (keyword trendData)
      # filter (\<lambda>word. length word > 3) (split (toLowerCase (keyword trendData)) '' '')"]
  by (cases "needsFallback (parseSections generated)") auto

theorem parseGeneratedContent_tags_without_marker_witness:
  "noTagsMarker (''# My Heading'' @ newline @ newline @ ''Body text about quantum machines'')
   \<and> tags (parseGeneratedContent
        (''# My Heading'' @ newline @ newline @ ''Body text about quantum machines'')
        \<lparr>keyword = ''Quantum Computing AI Quantum'', position = None, source = GoogleTrends,
          category = ''general'', trendScore = 90\<rparr>)
     = [''quantum computing ai quantum'', ''quantum'', ''computing'']"
proof -
  have m: "noTagsMarker (''# My Heading'' @ newline @ newline @ ''Body text about quantum machines'')"
    by code_simp
  have f: "needsFallback (parseSections (''# My Heading'' @ newline @ newline @ ''Body text about quantum machines''))"
    by code_simp
  have k: "newSet (toLowerCase ''Quantum Computing AI Quantum''
             # filter (\<lambda>word. length word > 3) (split (toLowerCase ''Quantum Computing AI Quantum'') '' ''))
     = [''quantum computing ai quantum'', ''quantum'', ''computing'']"
    by code_simp
  show ?thesis
    using parseGeneratedContent_tags_without_marker [OF m,
        of "\<lparr>keyword = ''Quantum Computing AI Quantum'', position = None, source = GoogleTrends,
          category = ''general'', trendScore = 90\<rparr>"] m f k
    by simp
qed

section \<open>Properties of the SEO stage\<close>

























section \<open>Properties of the orchestrator\<close>

lemma dateNow_aggCalls: "aggCalls (snd (dateNow w st)) = aggCalls st"
  by (simp add: dateNow_def)

lemma saveEach_aggCalls: "aggCalls (snd (saveEach w articles saved st)) = aggCalls st"
proof (induction articles arbitrary: saved st)
  case Nil
  show ?case by simp
next
  case (Cons a articles)
  show ?case
    by (simp add: Let_def dateNow_def split_beta Cons.IH split: sum.splits)
qed

lemma generateArticlesFromTrends_aggCalls:
  "aggCalls (snd (generateArticlesFromTrends w options st)) =
     aggCalls st @
     [\<lparr>includeGoogle = optIncludeGoogle options, includeTwitter = optIncludeTwitter options,
       includeReddit = optIncludeReddit options, geo = optGeo options, aggCategory = None,
       limit = maxArticles options * 2\<rparr>]"
  by (simp add: generateArticlesFromTrends_def callGetAllTrends_def Let_def split_beta
      saveEach_aggCalls split: sum.splits)

lemma generateArticlesHandler_without_cache:
  assumes "\<not> useCache body"
  shows "aggCalls (snd (generateArticlesHandler w body st)) =
     aggCalls st @
     \<lparr>includeGoogle = True, includeTwitter = True, includeReddit = False, geo = ''US'',
       aggCategory = None, limit = reqMaxArticles body * 3\<rparr>
     # (if isl (getAllTrends
                \<lparr>includeGoogle = True, includeTwitter = True, includeReddit = False,
                  geo = ''US'', aggCategory = None, limit = reqMaxArticles body * 3\<rparr>
                (sourcesAt w (length (aggCalls st))))
        then []
        else [\<lparr>includeGoogle = True, includeTwitter = True, includeReddit = False,
                geo = ''US'', aggCategory = None, limit = reqMaxArticles body * 2\<rparr>])"
  using assms
  by (simp add: generateArticlesHandler_def cachedTrends_def callGetAllTrends_def Let_def
      split_beta generateArticlesFromTrends_aggCalls defaultGenOptions_def
      split: sum.splits option.splits)

lemma cachedTrends_fresh:
  "cacheFresh c now \<Longrightarrow> cachedTrends True c now \<noteq> [] \<and> Some (cachedTrends True c now) = cacheData c"
  by (auto simp: cacheFresh_def cachedTrends_def Let_def split: option.splits)

text \<open>
  C4. With \<open>useCache\<close> true and a fresh cache the batch is claimed to perform no source
  fan-out. The route does take the cached candidates, but \<open>generateArticlesFromTrends\<close>
  does not read the \<open>trends\<close> it is handed and calls \<open>getAllTrends\<close> itself, with
  \<open>limit = maxArticles \<times> 2\<close>: one fan-out is always made.
\<close>

theorem generateArticlesHandler_fans_out_on_fresh_cache:
  assumes "useCache body"
    and "cacheFresh (trendsCache st) (nowAt w (clockReads st))"
  shows "aggCalls (snd (generateArticlesHandler w body st)) =
     aggCalls st @
     [\<lparr>includeGoogle = True, includeTwitter = True, includeReddit = False, geo = ''US'',
       aggCategory = None, limit = reqMaxArticles body * 2\<rparr>]"
proof -
  from assms(2) obtain cached timestamp where
    c: "cacheData (trendsCache st) = Some cached" "cacheTimestamp (trendsCache st) = Some timestamp"
       "timestamp \<noteq> 0"
    by (auto simp: cacheFresh_def split: option.splits)
  have f: "cachedTrends True (trendsCache st) (nowAt w (clockReads st)) \<noteq> []"
    using cachedTrends_fresh[OF assms(2)] by simp
  show ?thesis
    using assms(1) c f
    by (simp add: generateArticlesHandler_def dateNow_def Let_def split_beta
        generateArticlesFromTrends_aggCalls defaultGenOptions_def
        split: sum.splits)
qed


theorem generateArticlesHandler_fans_out_on_fresh_cache_witness:
  "useCache \<lparr>reqMaxArticles = 3, reqCategories = [''technology''], useCache = True\<rparr>
   \<and> cacheFresh (trendsCache
       \<lparr>trendsCache =
          \<lparr>cacheData = Some [\<lparr>keyword = ''Quantum Computing'', position = None,
             source = GoogleTrends, category = ''technology'', trendScore = 90\<rparr>],
           cacheTimestamp = Some 500, ttl = 1800000\<rparr>,
        store = [], aggCalls = [], clockReads = 0\<rparr>)
       (nowAt
       \<lparr>sourcesAt = (\<lambda>n. \<lparr>googleOutcome = Inl (Error ''unavailable''), twitterOutcome = Inr [],
          redditOutcome = Inr [], closeOutcome = None\<rparr>),
        articleReply = (\<lambda>t. Inl (Error ''unavailable'')),
        seoReply = (\<lambda>t. Inl (Error ''unavailable'')),
        parseJSON = (\<lambda>s. Inl (SyntaxError ''Unexpected token'')),
        regexOther = (\<lambda>p. Inl (SyntaxError ''Invalid regular expression'')),
        modelSlug = (\<lambda>now t. if now = 1000 then ''save-dollar5-now-1000''
                              else ''save-dollar5-now-2000''),
        nowAt = (\<lambda>n. 1000)\<rparr>
       (clockReads
       \<lparr>trendsCache =
          \<lparr>cacheData = Some [\<lparr>keyword = ''Quantum Computing'', position = None,
             source = GoogleTrends, category = ''technology'', trendScore = 90\<rparr>],
           cacheTimestamp = Some 500, ttl = 1800000\<rparr>,
        store = [], aggCalls = [], clockReads = 0\<rparr>))
   \<and> aggCalls (snd (generateArticlesHandler
       \<lparr>sourcesAt = (\<lambda>n. \<lparr>googleOutcome = Inl (Error ''unavailable''), twitterOutcome = Inr [],
          redditOutcome = Inr [], closeOutcome = None\<rparr>),
        articleReply = (\<lambda>t. Inl (Error ''unavailable'')),
        seoReply = (\<lambda>t. Inl (Error ''unavailable'')),
        parseJSON = (\<lambda>s. Inl (SyntaxError ''Unexpected token'')),
        regexOther = (\<lambda>p. Inl (SyntaxError ''Invalid regular expression'')),
        modelSlug = (\<lambda>now t. if now = 1000 then ''save-dollar5-now-1000''
                              else ''save-dollar5-now-2000''),
        nowAt = (\<lambda>n. 1000)\<rparr>
       \<lparr>reqMaxArticles = 3, reqCategories = [''technology''], useCache = True\<rparr>
       \<lparr>trendsCache =
          \<lparr>cacheData = Some [\<lparr>keyword = ''Quantum Computing'', position = None,
             source = GoogleTrends, category = ''technology'', trendScore = 90\<rparr>],
           cacheTimestamp = Some 500, ttl = 1800000\<rparr>,
        store = [], aggCalls = [], clockReads = 0\<rparr>))
     = [\<lparr>includeGoogle = True, includeTwitter = True, includeReddit = False, geo = ''US'',
         aggCategory = None, limit = 6\<rparr>]"
proof -
  have u: "useCache \<lparr>reqMaxArticles = 3, reqCategories = [''technology''], useCache = True\<rparr>"
    by simp
  have f: "cacheFresh (trendsCache
       \<lparr>trendsCache =
          \<lparr>cacheData = Some [\<lparr>keyword = ''Quantum Computing'', position = None,
             source = GoogleTrends, category = ''technology'', trendScore = 90\<rparr>],
           cacheTimestamp = Some 500, ttl = 1800000\<rparr>,
        store = [], aggCalls = [], clockReads = 0\<rparr>)
       (nowAt
       \<lparr>sourcesAt = (\<lambda>n. \<lparr>googleOutcome = Inl (Error ''unavailable''), twitterOutcome = Inr [],
          redditOutcome = Inr [], closeOutcome = None\<rparr>),
        articleReply = (\<lambda>t. Inl (Error ''unavailable'')),
        seoReply = (\<lambda>t. Inl (Error ''unavailable'')),
        parseJSON = (\<lambda>s. Inl (SyntaxError ''Unexpected token'')),
        regexOther = (\<lambda>p. Inl (SyntaxError ''Invalid regular expression'')),
        modelSlug = (\<lambda>now t. if now = 1000 then ''save-dollar5-now-1000''
                              else ''save-dollar5-now-2000''),
        nowAt = (\<lambda>n. 1000)\<rparr>
       (clockReads
       \<lparr>trendsCache =
          \<lparr>cacheData = Some [\<lparr>keyword = ''Quantum Computing'', position = None,
             source = GoogleTrends, category = ''technology'', trendScore = 90\<rparr>],
           cacheTimestamp = Some 500, ttl = 1800000\<rparr>,
        store = [], aggCalls = [], clockReads = 0\<rparr>))"
    by (simp add: cacheFresh_def)
  show ?thesis
    using generateArticlesHandler_fans_out_on_fresh_cache [OF u f] u f by simp
qed

section \<open>Properties of persistence\<close>

text \<open>For a title of literal characters the check does find a record of the same title.\<close>

lemma matchHere_literal:
  "CHR ''^'' \<notin> set pat \<Longrightarrow> CHR ''$'' \<notin> set pat \<Longrightarrow>
   map toLowerChar pat = map toLowerChar s \<Longrightarrow> matchHere pat s b"
proof (induction pat arbitrary: s b)
  case Nil
  show ?case by simp
next
  case (Cons p ps)
  then obtain c cs where s: "s = c # cs" by (cases s) auto
  with Cons show ?case by auto
qed

lemma searchFrom_matchHere: "matchHere pat s b \<Longrightarrow> searchFrom pat s b"
  by (cases s) auto

lemma createArticle_literal_title:
  assumes "isLiteralTitle (title articleData)"
    and "doc \<in> set docs"
    and "toLowerCase (title doc) = toLowerCase (title articleData)"
  shows "\<exists>existing \<in> set docs. createArticle w now articleData docs = (Inr existing, docs)"
proof -
  let ?re = "\<lambda>subject. searchFrom (title articleData) subject True"
  have "?re (title doc)"
    using assms matchHere_literal[of "title articleData" "title doc" True]
    by (auto simp: isLiteralTitle_def toLowerCase_def intro: searchFrom_matchHere)
  with assms(2) obtain existing where
    e: "findOneByTitle ?re docs = Some existing"
    by (cases "findOneByTitle ?re docs") (auto simp: findOneByTitle_def find_None_iff)
  then have "existing \<in> set docs"
    by (auto simp: findOneByTitle_def find_Some_iff)
  with e assms(1) show ?thesis
    by (auto simp: createArticle_def newRegExp_def isLiteralTitle_def)
qed

lemma plain_dollar: "isPlainPattern ''Save $5 now''"
  by code_simp

lemma search_dollar: "\<not> searchFrom ''Save $5 now'' ''Save $5 now'' True"
  by code_simp

lemma trim_dollar: "trim ''Save $5 now'' = ''Save $5 now''"
  by code_simp

lemma validate_dollar:
  "validateArticle
     \<lparr>title = ''Save $5 now'', excerpt = ''How to save five dollars'',
        content = ''Body'', tags = [], slug = s, articleCategory = ''finance'',
        seoMeta = None\<rparr> = None"
  by (simp add: validateArticle_def categoryEnum_def)

text \<open>
  C3. \<open>createArticle\<close> is claimed to return the existing record for a candidate whose
  title is already stored. The title is used as a regular expression, not as text: in
  \<open>Save $5 now\<close> the \<open>$\<close> asserts the end of the subject, so the pattern does not
  match its own title. The stored record is not found; the insert is then stopped by the
  unique slug index with an error when the candidate brings its slug, and goes through
  as a second record of the same title when the slug is generated at save time.
\<close>

theorem createArticle_misses_title_with_dollar:
  "createArticle w now
     \<lparr>title = ''Save $5 now'', excerpt = ''How to save five dollars'',
        content = ''Body'', tags = [], slug = ''save-5-now'', articleCategory = ''finance'',
        seoMeta = None\<rparr>
     [\<lparr>title = ''Save $5 now'', excerpt = ''How to save five dollars'',
        content = ''Body'', tags = [], slug = ''save-5-now'', articleCategory = ''finance'',
        seoMeta = None\<rparr>]
   = (Inl (DuplicateKeyError ''E11000 duplicate key error: slug''),
      [\<lparr>title = ''Save $5 now'', excerpt = ''How to save five dollars'',
        content = ''Body'', tags = [], slug = ''save-5-now'', articleCategory = ''finance'',
        seoMeta = None\<rparr>])
   \<and> (modelSlug w now ''Save $5 now'' \<noteq> modelSlug w before ''Save $5 now''
        \<and> modelSlug w now ''Save $5 now'' \<noteq> [] \<longrightarrow>
      createArticle w now
        \<lparr>title = ''Save $5 now'', excerpt = ''How to save five dollars'',
        content = ''Body'', tags = [], slug = [], articleCategory = ''finance'',
        seoMeta = None\<rparr>
        [\<lparr>title = ''Save $5 now'', excerpt = ''How to save five dollars'',
        content = ''Body'', tags = [], slug = modelSlug w before ''Save $5 now'', articleCategory = ''finance'',
        seoMeta = None\<rparr>]
      = (Inr \<lparr>title = ''Save $5 now'', excerpt = ''How to save five dollars'',
        content = ''Body'', tags = [], slug = modelSlug w now ''Save $5 now'', articleCategory = ''finance'',
        seoMeta = None\<rparr>,
         [\<lparr>title = ''Save $5 now'', excerpt = ''How to save five dollars'',
        content = ''Body'', tags = [], slug = modelSlug w before ''Save $5 now'', articleCategory = ''finance'',
        seoMeta = None\<rparr>,
          \<lparr>title = ''Save $5 now'', excerpt = ''How to save five dollars'',
        content = ''Body'', tags = [], slug = modelSlug w now ''Save $5 now'', articleCategory = ''finance'',
        seoMeta = None\<rparr>]))"
  by (simp add: createArticle_def newRegExp_def plain_dollar search_dollar trim_dollar
      findOneByTitle_def newArticle_def save_def validate_dollar preSave_def Let_def)

theorem createArticle_misses_title_with_dollar_witness:
  "createArticle
     \<lparr>sourcesAt = (\<lambda>n. \<lparr>googleOutcome = Inl (Error ''unavailable''), twitterOutcome = Inr [],
          redditOutcome = Inr [], closeOutcome = None\<rparr>),
        articleReply = (\<lambda>t. Inl (Error ''unavailable'')),
        seoReply = (\<lambda>t. Inl (Error ''unavailable'')),
        parseJSON = (\<lambda>s. Inl (SyntaxError ''Unexpected token'')),
        regexOther = (\<lambda>p. Inl (SyntaxError ''Invalid regular expression'')),
        modelSlug = (\<lambda>now t. if now = 1000 then ''save-dollar5-now-1000''
                              else ''save-dollar5-now-2000''),
        nowAt = (\<lambda>n. 1000)\<rparr>
     2000
     \<lparr>title = ''Save $5 now'', excerpt = ''How to save five dollars'',
        content = ''Body'', tags = [], slug = [], articleCategory = ''finance'',
        seoMeta = None\<rparr>
     [\<lparr>title = ''Save $5 now'', excerpt = ''How to save five dollars'',
        content = ''Body'', tags = [], slug = ''save-dollar5-now-1000'', articleCategory = ''finance'',
        seoMeta = None\<rparr>]
   = (Inr \<lparr>title = ''Save $5 now'', excerpt = ''How to save five dollars'',
        content = ''Body'', tags = [], slug = ''save-dollar5-now-2000'', articleCategory = ''finance'',
        seoMeta = None\<rparr>,
      [\<lparr>title = ''Save $5 now'', excerpt = ''How to save five dollars'',
        content = ''Body'', tags = [], slug = ''save-dollar5-now-1000'', articleCategory = ''finance'',
        seoMeta = None\<rparr>,
       \<lparr>title = ''Save $5 now'', excerpt = ''How to save five dollars'',
        content = ''Body'', tags = [], slug = ''save-dollar5-now-2000'', articleCategory = ''finance'',
        seoMeta = None\<rparr>])"
  using createArticle_misses_title_with_dollar
    [of "\<lparr>sourcesAt = (\<lambda>n. \<lparr>googleOutcome = Inl (Error ''unavailable''), twitterOutcome = Inr [],
          redditOutcome = Inr [], closeOutcome = None\<rparr>),
        articleReply = (\<lambda>t. Inl (Error ''unavailable'')),
        seoReply = (\<lambda>t. Inl (Error ''unavailable'')),
        parseJSON = (\<lambda>s. Inl (SyntaxError ''Unexpected token'')),
        regexOther = (\<lambda>p. Inl (SyntaxError ''Invalid regular expression'')),
        modelSlug = (\<lambda>now t. if now = 1000 then ''save-dollar5-now-1000''
                              else ''save-dollar5-now-2000''),
        nowAt = (\<lambda>n. 1000)\<rparr>" 2000 1000]
  by simp

end
